theory Spec2Isabelle
  imports Complex_Main
begin

section \<open>Values, errors and tensors\<close>

text \<open>
  Tensor entries are IEEE floating-point numbers.  Rounding is idealised: a finite
  entry carries a real number.  The special values are kept, because the code
  inspects them (\<^verbatim>\<open>torch.isnan\<close>) and produces them (a division by zero does not
  raise in numpy or torch, it yields NaN or an infinity).  Signed zeros are not
  distinguished.
\<close>

datatype fl = Fin real | PInf | NInf | NaN

fun isnan :: "fl \<Rightarrow> bool" where
  "isnan NaN = True"
| "isnan _ = False"

fun isfinite :: "fl \<Rightarrow> bool" where
  "isfinite (Fin _) = True"
| "isfinite _ = False"

fun fneg :: "fl \<Rightarrow> fl" where
  "fneg (Fin a) = Fin (- a)"
| "fneg PInf = NInf"
| "fneg NInf = PInf"
| "fneg NaN = NaN"

fun fadd :: "fl \<Rightarrow> fl \<Rightarrow> fl" where
  "fadd (Fin a) (Fin b) = Fin (a + b)"
| "fadd NaN _ = NaN"
| "fadd _ NaN = NaN"
| "fadd PInf NInf = NaN"
| "fadd NInf PInf = NaN"
| "fadd PInf _ = PInf"
| "fadd _ PInf = PInf"
| "fadd NInf _ = NInf"
| "fadd _ NInf = NInf"

definition fsub :: "fl \<Rightarrow> fl \<Rightarrow> fl" where
  "fsub x y = fadd x (fneg y)"

definition signed_inf :: "bool \<Rightarrow> fl" where
  "signed_inf positive = (if positive then PInf else NInf)"

fun fmul :: "fl \<Rightarrow> fl \<Rightarrow> fl" where
  "fmul (Fin a) (Fin b) = Fin (a * b)"
| "fmul NaN _ = NaN"
| "fmul _ NaN = NaN"
| "fmul (Fin a) PInf = (if a = 0 then NaN else signed_inf (0 < a))"
| "fmul (Fin a) NInf = (if a = 0 then NaN else signed_inf (a < 0))"
| "fmul PInf (Fin b) = (if b = 0 then NaN else signed_inf (0 < b))"
| "fmul NInf (Fin b) = (if b = 0 then NaN else signed_inf (b < 0))"
| "fmul PInf PInf = PInf"
| "fmul NInf NInf = PInf"
| "fmul PInf NInf = NInf"
| "fmul NInf PInf = NInf"

fun fdiv :: "fl \<Rightarrow> fl \<Rightarrow> fl" where
  "fdiv (Fin a) (Fin b) =
     (if b = 0 then (if a = 0 then NaN else signed_inf (0 < a)) else Fin (a / b))"
| "fdiv NaN _ = NaN"
| "fdiv _ NaN = NaN"
| "fdiv (Fin a) PInf = Fin 0"
| "fdiv (Fin a) NInf = Fin 0"
| "fdiv PInf (Fin b) = signed_inf (0 \<le> b)"
| "fdiv NInf (Fin b) = signed_inf (b < 0)"
| "fdiv PInf PInf = NaN"
| "fdiv PInf NInf = NaN"
| "fdiv NInf PInf = NaN"
| "fdiv NInf NInf = NaN"

fun fsqrt :: "fl \<Rightarrow> fl" where
  "fsqrt (Fin a) = (if a < 0 then NaN else Fin (sqrt a))"
| "fsqrt PInf = PInf"
| "fsqrt NInf = NaN"
| "fsqrt NaN = NaN"

text \<open>The values of the configuration dictionary \<^verbatim>\<open>iteration_params\<close>.\<close>

datatype pyval = PNone | PBool bool | PInt int | PFloat real | PStr string | PList "pyval list"

type_synonym pydict = "string \<rightharpoonup> pyval"

text \<open>Python's truth value of an object, as \<^verbatim>\<open>if x and y\<close> takes it.\<close>

fun truthy :: "pyval \<Rightarrow> bool" where
  "truthy PNone = False"
| "truthy (PBool b) = b"
| "truthy (PInt i) = (i \<noteq> 0)"
| "truthy (PFloat r) = (r \<noteq> 0)"
| "truthy (PStr s) = (s \<noteq> [])"
| "truthy (PList xs) = (xs \<noteq> [])"

definition dict_get :: "pydict \<Rightarrow> string \<Rightarrow> pyval \<Rightarrow> pyval" where
  "dict_get d k dflt = (case d k of None \<Rightarrow> dflt | Some v \<Rightarrow> v)"

datatype error =
    ValueError string
  | KeyError string
  | IndexError
  | TypeError
  | AttributeError
  | UnboundLocalError
  | ShapeError
  | ExternalError string

text \<open>
  A torch tensor: its entries (one per voxel; a \<^verbatim>\<open>3 \<times> N\<close> optic-axis tensor is kept as
  the list of its \<^verbatim>\<open>N\<close> columns) and its \<^verbatim>\<open>requires_grad\<close> flag.
\<close>

record 'a tensor =
  entries :: "'a list"
  requires_grad :: bool

definition Parameter :: "'a list \<Rightarrow> 'a tensor" where
  "Parameter xs = \<lparr>entries = xs, requires_grad = True\<rparr>"

text \<open>
  Column \<open>j\<close> of the optic-axis tensor: component 0 is row 0 of the tensor, components
  1 and 2 are rows 1 and 2.
\<close>

type_synonym vec3 = "fl \<times> fl \<times> fl"

type_synonym vec2 = "fl \<times> fl"

fun row0 :: "vec3 \<Rightarrow> fl" where
  "row0 (a, b, c) = a"

fun rows12 :: "vec3 \<Rightarrow> vec2" where
  "rows12 (a, b, c) = (b, c)"

record volume =
  Delta_n :: "real tensor"
  optic_axis :: "vec3 tensor"
  indices_active :: "nat list option"
  active_idx2spatial_idx_tensor :: "int list option"
  optic_axis_active :: "vec3 tensor option"
  optic_axis_planar :: "vec2 tensor option"
  birefringence_active :: "real tensor option"

section \<open>Deriving the active parameters from the mask\<close>

text \<open>\<^verbatim>\<open>torch.where(mask)[0]\<close>: the positions of the true entries, ascending.\<close>

definition where_true :: "bool list \<Rightarrow> nat list" where
  "where_true vmask = filter (\<lambda>i. vmask ! i) [0..<length vmask]"

text \<open>
  \<^verbatim>\<open>t[idxs]\<close> with an index tensor: the selected entries, IndexError when an index is
  out of range.
\<close>

definition index_select :: "'a list \<Rightarrow> nat list \<Rightarrow> error + 'a list" where
  "index_select t idxs =
     (if \<forall>i \<in> set idxs. i < length t then Inr (map (\<lambda>i. t ! i) idxs) else Inl IndexError)"

text \<open>
  \<^verbatim>\<open>t[idxs] = vals\<close> with an index tensor: the writes in order, IndexError when an index
  is out of range, a shape error when the numbers of indices and values differ.
\<close>

definition index_put :: "'a list \<Rightarrow> nat list \<Rightarrow> 'a list \<Rightarrow> error + 'a list" where
  "index_put t idxs vals =
     (if \<not> (\<forall>i \<in> set idxs. i < length t) then Inl IndexError
      else if length idxs \<noteq> length vals then Inl ShapeError
      else Inr (fold (\<lambda>(i, v) acc. acc[i := v]) (zip idxs vals) t))"

definition select_tensor :: "'a tensor \<Rightarrow> nat list \<Rightarrow> error + 'a tensor" where
  "select_tensor t idxs =
     (case index_select (entries t) idxs of
        Inl e \<Rightarrow> Inl e
      | Inr xs \<Rightarrow> Inr \<lparr>entries = xs, requires_grad = requires_grad t\<rparr>)"

definition create_parameters_from_mask :: "bool \<Rightarrow> volume \<Rightarrow> bool list \<Rightarrow> error + volume" where
  "create_parameters_from_mask two_optic_axis_components vol vmask =
     (let active_indices = where_true vmask;
          max_index = length vmask;
          positions = map int [0..<length active_indices]
      in case index_put (replicate (max_index + 1) (- 1)) active_indices positions of
           Inl e \<Rightarrow> Inl e
         | Inr idx_tensor \<Rightarrow>
             let vol1 = vol\<lparr>indices_active := Some active_indices,
                            active_idx2spatial_idx_tensor := Some idx_tensor\<rparr>
             in (if two_optic_axis_components then
                   (let oa = (optic_axis vol1)\<lparr>requires_grad := False\<rparr>
                    in case select_tensor oa active_indices of
                         Inl e \<Rightarrow> Inl e
                       | Inr act \<Rightarrow>
                           (case index_select (entries (Delta_n vol1)) active_indices of
                              Inl e \<Rightarrow> Inl e
                            | Inr bir \<Rightarrow>
                                Inr (vol1\<lparr>optic_axis := oa,
                                          optic_axis_active := Some act,
                                          optic_axis_planar := Some (Parameter (map rows12 (entries act))),
                                          birefringence_active := Some (Parameter bir)\<rparr>)))
                 else
                   (case index_select (entries (optic_axis vol1)) active_indices of
                      Inl e \<Rightarrow> Inl e
                    | Inr act \<Rightarrow>
                        (case index_select (entries (Delta_n vol1)) active_indices of
                           Inl e \<Rightarrow> Inl e
                         | Inr bir \<Rightarrow>
                             Inr (vol1\<lparr>optic_axis_active := Some (Parameter act),
                                       birefringence_active := Some (Parameter bir)\<rparr>)))))"

section \<open>Voxel mask and construction of the Reconstructor\<close>

text \<open>
  Elementwise operations broadcast: two one-dimensional tensors combine when their
  lengths agree or one of them has length one; otherwise torch raises.
\<close>

definition broadcast2 :: "'a list \<Rightarrow> 'b list \<Rightarrow> error + ('a \<times> 'b) list" where
  "broadcast2 xs ys =
     (if length xs = length ys then Inr (zip xs ys)
      else if length xs = 1 then Inr (map (\<lambda>y. (hd xs, y)) ys)
      else if length ys = 1 then Inr (map (\<lambda>x. (x, hd ys)) xs)
      else Inl ShapeError)"

definition bool_to_real :: "bool \<Rightarrow> real" where
  "bool_to_real b = (if b then 1 else 0)"

text \<open>
  \<^verbatim>\<open>apply_mask_to_volume\<close>: \<^verbatim>\<open>Delta_n\<close> becomes a fresh parameter holding the product
  of the old entries with the mask.
\<close>

definition apply_mask_to_volume :: "bool list \<Rightarrow> volume \<Rightarrow> error + volume" where
  "apply_mask_to_volume vmask vol =
     (case broadcast2 (entries (Delta_n vol)) vmask of
        Inl e \<Rightarrow> Inl e
      | Inr ps \<Rightarrow> Inr (vol\<lparr>Delta_n := Parameter (map (\<lambda>(d, m). d * bool_to_real m) ps)\<rparr>))"

text \<open>
  The ray tracer is an external collaborator.  Of the rays object the model keeps the
  flag and the attribute the constructor reads; the attribute \<^verbatim>\<open>mask\<close> may be absent.
  The voxel lists that the ray tracer computes are taken as they come.
\<close>

record rays =
  MLA_volume_geometry_ready :: bool
  rays_mask :: "bool list option"
  filtered_voxels :: "int list"
  voxels_at_least_one_nonzero_ret :: "int list"
  voxels_repeated_zero_ret :: "int list"
  voxels_zero_ret_lenslet :: "int list"

text \<open>Python's index into a sequence of length \<open>n\<close>: negative indices count from the end.\<close>

definition py_index :: "nat \<Rightarrow> int \<Rightarrow> error + nat" where
  "py_index n i =
     (if 0 \<le> i \<and> i < int n then Inr (nat i)
      else if - int n \<le> i \<and> i < 0 then Inr (nat (int n + i))
      else Inl IndexError)"

text \<open>\<^verbatim>\<open>mask = torch.zeros(n, dtype=bool); mask[idxs] = True\<close>\<close>

fun mask_from_indices :: "bool list \<Rightarrow> int list \<Rightarrow> error + bool list" where
  "mask_from_indices m [] = Inr m"
| "mask_from_indices m (i # is) =
     (case py_index (length m) i of
        Inl e \<Rightarrow> Inl e
      | Inr j \<Rightarrow> mask_from_indices (m[j := True]) is)"

text \<open>
  \<^verbatim>\<open>voxel_mask_setup\<close>.  With the geometry ready the mask marks the voxels filtered by
  retardance.  Otherwise it marks the voxels reached by a ray of nonzero retardance,
  less the excluded ones, in ascending order; the file with the voxel indices is read or
  recomputed by the ray tracer.  The mask is stored on the rays object too.
\<close>

definition voxel_mask_setup :: "bool \<Rightarrow> rays \<Rightarrow> volume \<Rightarrow> error + (bool list \<times> rays)" where
  "voxel_mask_setup from_sim rs vol =
     (let num_vox = length (entries (Delta_n vol));
          chosen =
            (if MLA_volume_geometry_ready rs then filtered_voxels rs
             else
               (let vox_list_excluding =
                      (if from_sim then voxels_repeated_zero_ret rs
                       else voxels_zero_ret_lenslet rs)
                in sort (remdups (filter (\<lambda>v. v \<notin> set vox_list_excluding)
                                         (voxels_at_least_one_nonzero_ret rs)))))
      in case mask_from_indices (replicate num_vox False) chosen of
           Inl e \<Rightarrow> Inl e
         | Inr m \<Rightarrow> Inr (m, rs\<lparr>rays_mask := Some m\<rparr>))"

text \<open>\<^verbatim>\<open>str.split()\<close>: the maximal runs of characters that are not whitespace.\<close>

definition is_space :: "char \<Rightarrow> bool" where
  "is_space c = (c \<in> set [CHR '' '', CHR 0x09, CHR 0x0A, CHR 0x0B, CHR 0x0C, CHR 0x0D])"

fun split_ws :: "string \<Rightarrow> string \<Rightarrow> string list" where
  "split_ws acc [] = (if acc = [] then [] else [rev acc])"
| "split_ws acc (c # cs) =
     (if is_space c then (if acc = [] then split_ws [] cs else rev acc # split_ws [] cs)
      else split_ws (c # acc) cs)"

record reconstruction_config =
  retardance_image :: "real list"
  azimuth_image :: "real list"
  initial_volume :: volume
  interation_parameters :: pydict

record reconstructor =
  ret_img_meas :: "real list"
  azim_img_meas :: "real list"
  volume_initial_guess :: volume
  iteration_params :: pydict
  the_rays :: rays
  nerf_mode :: bool
  from_simulation :: bool
  apply_volume_mask :: bool
  voxel_mask :: "bool list"
  volume_pred :: volume
  remove_large_arrs :: bool
  two_optic_axis_components :: bool
  mla_rays_at_once :: bool
  intensity_bool :: bool
  ret_img_pred :: "real list"
  azim_img_pred :: "real list"
  reg_term_values :: "real list"
  loss_total_list :: "real list"
  loss_data_term_list :: "real list"
  loss_reg_term_list :: "real list"
  adjusted_lrs_list :: "real list list"
  ep :: nat

text \<open>
  \<^verbatim>\<open>Reconstructor.__init__\<close>.  The ray tracer is set up first (\<open>setup_raytracer\<close>, external,
  it may fail); \<open>prepare_all\<close> is the external \<^verbatim>\<open>prepare_for_all_rays_at_once\<close> with the
  radiometry filter.  Plotting and file output are left out.  The flags read from the
  dictionary keep their truth value.
\<close>

definition Reconstructor_init ::
  "(error + rays) \<Rightarrow> (rays \<Rightarrow> error + rays) \<Rightarrow> reconstruction_config \<Rightarrow> bool \<Rightarrow>
   error + reconstructor" where
  "Reconstructor_init setup_raytracer prepare_all recon_info apply_vol_mask =
     (let params = interation_parameters recon_info;
          guess = initial_volume recon_info
      in (case setup_raytracer of
            Inl e \<Rightarrow> Inl e
          | Inr rs \<Rightarrow>
     (let nerf = truthy (dict_get params ''nerf_mode'' (PBool False));
          from_sim = truthy (dict_get params ''from_simulation'' (PBool False));
          vol_pred = guess;
          remove_large = truthy (dict_get params ''free_memory_by_del_large_arrays'' (PBool False))
      in (if remove_large \<and> apply_vol_mask then
            Inl (ValueError ''Cannot remove large arrays and apply mask tovolume gradient at the same time.'')
          else
     (let two_comp = truthy (dict_get params ''two_optic_axis_components'' (PBool False));
          all_at_once = truthy (dict_get params ''mla_rays_at_once'' (PBool False))
      in (case (if all_at_once \<and> \<not> MLA_volume_geometry_ready rs then prepare_all rs else Inr rs) of
            Inl e \<Rightarrow> Inl e
          | Inr rs1 \<Rightarrow>
     (case (case rays_mask rs1 of
              Some m \<Rightarrow> Inr (m, rs1)
            | None \<Rightarrow> voxel_mask_setup from_sim rs1 vol_pred) of
        Inl e \<Rightarrow> Inl e
      | Inr (m, rs2) \<Rightarrow>
     (case apply_mask_to_volume m vol_pred of
        Inl e \<Rightarrow> Inl e
      | Inr vol_masked \<Rightarrow>
     (case dict_get params ''datafidelity'' (PStr ''vector'') of
        PStr method \<Rightarrow>
          (case split_ws [] method of
             [] \<Rightarrow> Inl IndexError
           | first_word # _ \<Rightarrow>
               Inr \<lparr>ret_img_meas = retardance_image recon_info,
                    azim_img_meas = azimuth_image recon_info,
                    volume_initial_guess = guess,
                    iteration_params = params,
                    the_rays = rs2,
                    nerf_mode = nerf,
                    from_simulation = from_sim,
                    apply_volume_mask = apply_vol_mask,
                    voxel_mask = m,
                    volume_pred = vol_masked,
                    remove_large_arrs = remove_large,
                    two_optic_axis_components = two_comp,
                    mla_rays_at_once = all_at_once,
                    intensity_bool = (first_word = ''intensity''),
                    ret_img_pred = [],
                    azim_img_pred = [],
                    reg_term_values = [],
                    loss_total_list = [],
                    loss_data_term_list = [],
                    loss_reg_term_list = [],
                    adjusted_lrs_list = [],
                    ep = 0\<rparr>)
      | _ \<Rightarrow> Inl AttributeError)))))))))"

section \<open>The polarimetric loss\<close>

record PolarimetricLossFunction =
  weight_retardance :: real
  weight_orientation :: real
  weight_datafidelity :: real
  weight_regularization :: real
  target_retardance :: "real list option"
  target_orientation :: "real list option"

definition set_retardance_target ::
  "PolarimetricLossFunction \<Rightarrow> real list \<Rightarrow> PolarimetricLossFunction" where
  "set_retardance_target L target = L\<lparr>target_retardance := Some target\<rparr>"

definition set_orientation_target ::
  "PolarimetricLossFunction \<Rightarrow> real list \<Rightarrow> PolarimetricLossFunction" where
  "set_orientation_target L target = L\<lparr>target_orientation := Some target\<rparr>"

text \<open>
  The transform into vector form.  The products, the cosine and the sine are the exact
  real ones: the rounding of the float32 or float64 operations is not modelled.
\<close>

definition transform_ret_azim_to_vector_form ::
  "real list \<Rightarrow> real list \<Rightarrow> error + (real list \<times> real list)" where
  "transform_ret_azim_to_vector_form ret azim =
     (case broadcast2 ret azim of
        Inl e \<Rightarrow> Inl e
      | Inr ps \<Rightarrow> Inr (map (\<lambda>(r, a). r * cos (2 * a)) ps, map (\<lambda>(r, a). r * sin (2 * a)) ps))"

text \<open>
  \<^verbatim>\<open>F.mse_loss\<close> with its default reduction: the mean of the squared differences.  The
  mean of no entries is NaN.
\<close>

definition mse_loss :: "real list \<Rightarrow> real list \<Rightarrow> error + fl" where
  "mse_loss pred target =
     (case broadcast2 pred target of
        Inl e \<Rightarrow> Inl e
      | Inr ps \<Rightarrow>
          Inr (if ps = [] then NaN
               else Fin (sum_list (map (\<lambda>(x, y). (x - y)\<^sup>2) ps) / real (length ps))))"

definition vector_loss :: "PolarimetricLossFunction \<Rightarrow> real list \<Rightarrow> real list \<Rightarrow> error + fl" where
  "vector_loss L ret_pred azim_pred =
     (case target_retardance L of
        None \<Rightarrow> Inl AttributeError
      | Some ret_gt \<Rightarrow>
     (case target_orientation L of
        None \<Rightarrow> Inl AttributeError
      | Some azim_gt \<Rightarrow>
     (case transform_ret_azim_to_vector_form ret_gt azim_gt of
        Inl e \<Rightarrow> Inl e
      | Inr (cos_gt, sin_gt) \<Rightarrow>
     (case transform_ret_azim_to_vector_form ret_pred azim_pred of
        Inl e \<Rightarrow> Inl e
      | Inr (cos_pred, sin_pred) \<Rightarrow>
     (case mse_loss cos_pred cos_gt of
        Inl e \<Rightarrow> Inl e
      | Inr loss_cos \<Rightarrow>
     (case mse_loss sin_pred sin_gt of
        Inl e \<Rightarrow> Inl e
      | Inr loss_sin \<Rightarrow> Inr (fadd loss_cos loss_sin)))))))"

text \<open>
  \<^verbatim>\<open>compute_datafidelity_term\<close>: every method but \<^verbatim>\<open>'vector'\<close> multiplies a weight with the
  \<^verbatim>\<open>None\<close> that the two unfinished loss methods return, a type error.
\<close>

definition compute_datafidelity_term ::
  "PolarimetricLossFunction \<Rightarrow> real list \<Rightarrow> real list \<Rightarrow> string \<Rightarrow> error + fl" where
  "compute_datafidelity_term L ret_pred azim_pred method =
     (if method = ''vector'' then vector_loss L ret_pred azim_pred else Inl TypeError)"

section \<open>One iteration\<close>

text \<open>A number of the configuration, as the multiplication with a tensor takes it.\<close>

fun as_number :: "pyval \<Rightarrow> error + real" where
  "as_number (PFloat r) = Inr r"
| "as_number (PInt i) = Inr (of_int i)"
| "as_number (PBool b) = Inr (bool_to_real b)"
| "as_number _ = Inl TypeError"

text \<open>
  \<^verbatim>\<open>_compute_loss\<close>.  The data term and the unweighted regularization loss come from the
  loss object (the class this module calls is not the one above; its results are taken
  as they come).  A weight given as a list is replaced in the dictionary by its first
  element.  Returned: the total loss, the data term, the weighted regularization term,
  and the dictionary.
\<close>

fun is_list :: "pyval \<Rightarrow> bool" where
  "is_list (PList _) = True"
| "is_list _ = False"

text \<open>\<^verbatim>\<open>w[0]\<close> when \<open>w\<close> is a list, else \<open>w\<close> itself.\<close>

fun first_if_list :: "pyval \<Rightarrow> error + pyval" where
  "first_if_list (PList []) = Inl IndexError"
| "first_if_list (PList (x # _)) = Inr x"
| "first_if_list w = Inr w"

definition compute_loss ::
  "pydict \<Rightarrow> real \<Rightarrow> real \<Rightarrow> error + ((real \<times> real \<times> real) \<times> pydict)" where
  "compute_loss params data_term reg_loss =
     (case params ''regularization_weight'' of
        None \<Rightarrow> Inl (KeyError ''regularization_weight'')
      | Some w \<Rightarrow>
          (case first_if_list w of
             Inl e \<Rightarrow> Inl e
           | Inr w1 \<Rightarrow>
               (let params1 = (if is_list w then params(''regularization_weight'' \<mapsto> w1) else params)
                in (case as_number w1 of
                      Inl e \<Rightarrow> Inl e
                    | Inr weight \<Rightarrow>
                        (let regularization_term = weight * reg_loss;
                             loss = data_term + regularization_term
                         in Inr ((loss, data_term, regularization_term), params1))))))"

text \<open>The Euclidean norm of a column, computed on the floating-point values.\<close>

definition norm3 :: "vec3 \<Rightarrow> fl" where
  "norm3 v = (case v of (a, b, c) \<Rightarrow> fsqrt (fadd (fadd (fmul a a) (fmul b b)) (fmul c c)))"

text \<open>
  Modelled from the spec: \<^verbatim>\<open>stay_on_sphere\<close> of \<^verbatim>\<open>VolumeRaytraceLFM.volumes.optic_axis\<close>,
  which is not among the sources.  The spec: "re-normalize the optic-axis vector to
  unit length after every update (this is a hard geometric constraint of the physical
  model, not a soft penalty)" and "Optic-axis vectors are unit-norm after every
  ConstraintProject call, for all active voxels".  A vector with a direction, that is a
  finite vector other than zero, is divided by its Euclidean norm.  Of a vector without
  a direction the spec fixes the length only; the model puts the unit vector of the
  axial direction in its place.  The function works on the tensor it is given: the
  caller binds the returned tensor to a local name and drops it, so the volume changes
  through the tensor object alone.
\<close>

fun has_direction :: "vec3 \<Rightarrow> bool" where
  "has_direction (Fin a, Fin b, Fin c) = (a \<noteq> 0 \<or> b \<noteq> 0 \<or> c \<noteq> 0)"
| "has_direction _ = False"

definition normalize3 :: "vec3 \<Rightarrow> vec3" where
  "normalize3 v =
     (if has_direction v
      then (case v of (a, b, c) \<Rightarrow> (fdiv a (norm3 v), fdiv b (norm3 v), fdiv c (norm3 v)))
      else (Fin 1, Fin 0, Fin 0))"

definition stay_on_sphere :: "vec3 tensor \<Rightarrow> vec3 tensor" where
  "stay_on_sphere optic_axis_t = optic_axis_t\<lparr>entries := map normalize3 (entries optic_axis_t)\<rparr>"

text \<open>
  Modelled from the spec: \<^verbatim>\<open>fill_vector_based_on_nonaxial\<close> of
  \<^verbatim>\<open>VolumeRaytraceLFM.volumes.optic_axis\<close>, which is not among the sources.  The spec: "the
  third (axial) component is reconstructed deterministically from the other two under a
  unit-norm constraint (axial = +-sqrt(1 - planar_1^2 - planar_2^2))"; the caller's
  docstring: "fill the axial component of the optic axis with the square root of the
  remaining components".  The planar parameter is rows 1 and 2 of the active axis
  (\<^verbatim>\<open>create_parameters_from_mask\<close>), so the axial component is row 0; the root taken is the
  nonnegative one.  Outside the unit disc the floating-point square root of the negative
  number is NaN, and the vector is left to \<^verbatim>\<open>stay_on_sphere\<close>.
\<close>

definition axial_component :: "vec2 \<Rightarrow> fl" where
  "axial_component pq =
     (case pq of (p, q) \<Rightarrow> fsqrt (fsub (Fin 1) (fadd (fmul p p) (fmul q q))))"

definition fill_vector_based_on_nonaxial :: "vec3 list \<Rightarrow> vec2 list \<Rightarrow> error + vec3 list" where
  "fill_vector_based_on_nonaxial axis_full axis_nonaxial =
     (if length axis_full \<noteq> length axis_nonaxial then Inl ShapeError
      else Inr (map (\<lambda>pq. (axial_component pq, fst pq, snd pq)) axis_nonaxial))"

text \<open>
  \<^verbatim>\<open>keep_optic_axis_on_sphere\<close> hands the active optic axis, or the full-grid one when no
  active set was derived, to \<^verbatim>\<open>stay_on_sphere\<close>; the tensor of the volume is that
  tensor object after the call.
\<close>

definition keep_optic_axis_on_sphere :: "volume \<Rightarrow> error + volume" where
  "keep_optic_axis_on_sphere vol =
     (if indices_active vol \<noteq> None then
        (case optic_axis_active vol of
           None \<Rightarrow> Inl AttributeError
         | Some t \<Rightarrow> Inr (vol\<lparr>optic_axis_active := Some (stay_on_sphere t)\<rparr>))
      else Inr (vol\<lparr>optic_axis := stay_on_sphere (optic_axis vol)\<rparr>))"

definition fill_optaxis_component :: "volume \<Rightarrow> error + volume" where
  "fill_optaxis_component vol =
     (case optic_axis_active vol of
        None \<Rightarrow> Inl AttributeError
      | Some t \<Rightarrow>
          (case optic_axis_planar vol of
             None \<Rightarrow> Inl AttributeError
           | Some pl \<Rightarrow>
               (case fill_vector_based_on_nonaxial (entries t) (entries pl) of
                  Inl e \<Rightarrow> Inl e
                | Inr filled \<Rightarrow> Inr (vol\<lparr>optic_axis_active := Some (t\<lparr>entries := filled\<rparr>)\<rparr>))))"

text \<open>
  The end of \<^verbatim>\<open>one_iteration\<close> ("Keep the optic axis on the unit sphere"), which is also
  the start of \<^verbatim>\<open>prepare_volume_for_recon\<close>.
\<close>

definition constrain_optic_axis :: "bool \<Rightarrow> volume \<Rightarrow> error + volume" where
  "constrain_optic_axis two_comp vol =
     (case (if two_comp then fill_optaxis_component vol else Inr vol) of
        Inl e \<Rightarrow> Inl e
      | Inr vol1 \<Rightarrow> keep_optic_axis_on_sphere vol1)"

text \<open>
  What the external collaborators hand back during one epoch: the images of the ray
  tracer, the two results of the loss object, the parameter values after
  \<^verbatim>\<open>optimizer.step()\<close>, the learning rates of the parameter groups after
  \<^verbatim>\<open>scheduler.step(loss)\<close> (torch's reduce-on-plateau scheduler) and the adjusted
  learning rates.
\<close>

record epoch_ext =
  ret_image_current :: "real list"
  azim_image_current :: "real list"
  data_term_ext :: real
  reg_loss_ext :: real
  reg_term_values_ext :: "real list"
  stepped_birefringence :: "real list"
  stepped_optic_axis :: "vec3 list"
  stepped_planar :: "vec2 list"
  scheduler_step :: "real list \<Rightarrow> real list"
  adjusted_lrs_ext :: "real list"

text \<open>
  \<^verbatim>\<open>optimizer.step()\<close> writes the trainable tensors: the full-grid ones when no active set
  was derived, else the active birefringence and the active optic axis, or its planar
  rows in two-component mode.
\<close>

definition optimizer_step :: "bool \<Rightarrow> epoch_ext \<Rightarrow> volume \<Rightarrow> volume" where
  "optimizer_step two_comp ext vol =
     (if indices_active vol = None then
        vol\<lparr>Delta_n := (Delta_n vol)\<lparr>entries := stepped_birefringence ext\<rparr>,
            optic_axis := (optic_axis vol)\<lparr>entries := stepped_optic_axis ext\<rparr>\<rparr>
      else if two_comp then
        vol\<lparr>birefringence_active :=
              map_option (\<lambda>t. t\<lparr>entries := stepped_birefringence ext\<rparr>) (birefringence_active vol),
            optic_axis_planar :=
              map_option (\<lambda>t. t\<lparr>entries := stepped_planar ext\<rparr>) (optic_axis_planar vol)\<rparr>
      else
        vol\<lparr>birefringence_active :=
              map_option (\<lambda>t. t\<lparr>entries := stepped_birefringence ext\<rparr>) (birefringence_active vol),
            optic_axis_active :=
              map_option (\<lambda>t. t\<lparr>entries := stepped_optic_axis ext\<rparr>) (optic_axis_active vol)\<rparr>)"

definition store_results ::
  "reconstructor \<Rightarrow> real list \<Rightarrow> real list \<Rightarrow> volume \<Rightarrow> real \<Rightarrow> real \<Rightarrow> real \<Rightarrow> real list \<Rightarrow>
   reconstructor" where
  "store_results r ret_image azim_image volume_estimation loss data_term regularization_term
     adjusted_lrs =
     r\<lparr>ret_img_pred := ret_image,
       azim_img_pred := azim_image,
       volume_pred := volume_estimation,
       loss_total_list := loss_total_list r @ [loss],
       loss_data_term_list := loss_data_term_list r @ [data_term],
       loss_reg_term_list := loss_reg_term_list r @ [regularization_term],
       adjusted_lrs_list := adjusted_lrs_list r @ [adjusted_lrs]\<rparr>"

text \<open>
  \<^verbatim>\<open>one_iteration\<close> on the reconstructor and the learning rates of the optimizer's
  parameter groups.  The forward model, the backward pass and the optimizer are external:
  gradients, their masking and their clipping are not modelled, the values after the
  step are taken as they come.  With intensity images the measured images stand in for
  the predicted ones; the four lists grow the same way on both paths.
\<close>

definition one_iteration ::
  "reconstructor \<Rightarrow> real list \<Rightarrow> epoch_ext \<Rightarrow> error + (reconstructor \<times> real list)" where
  "one_iteration r groups ext =
     (case compute_loss (iteration_params r) (data_term_ext ext) (reg_loss_ext ext) of
        Inl e \<Rightarrow> Inl e
      | Inr ((loss, data_term, regularization_term), params1) \<Rightarrow>
     (let r1 = r\<lparr>iteration_params := params1, reg_term_values := reg_term_values_ext ext\<rparr>;
          stepped = optimizer_step (two_optic_axis_components r1) ext (volume_pred r1);
          groups1 = scheduler_step ext groups;
          adjusted_lrs = (if nerf_mode r1 then [0] else adjusted_lrs_ext ext)
      in (case constrain_optic_axis (two_optic_axis_components r1) stepped of
            Inl e \<Rightarrow> Inl e
          | Inr volume_estimation \<Rightarrow>
              (if intensity_bool r1 then
                 Inr (store_results r1 (ret_img_meas r1) (azim_img_meas r1) volume_estimation
                        loss data_term regularization_term adjusted_lrs, groups1)
               else
                 Inr (store_results r1 (ret_image_current ext) (azim_image_current ext)
                        volume_estimation loss data_term regularization_term adjusted_lrs,
                      groups1)))))"

section \<open>Recovery from NaN optic axes\<close>

text \<open>
  \<^verbatim>\<open>F.normalize(v, p=2, dim=0)\<close> of torch divides by \<^verbatim>\<open>max(norm, eps)\<close> with
  \<^verbatim>\<open>eps = 1e-12\<close>.
\<close>

definition normalize_eps :: real where
  "normalize_eps = 1 / 10 ^ 12"

definition F_normalize :: "real \<times> real \<times> real \<Rightarrow> vec3" where
  "F_normalize v =
     (case v of (a, b, c) \<Rightarrow>
        (let d = max (sqrt (a\<^sup>2 + b\<^sup>2 + c\<^sup>2)) normalize_eps
         in (Fin (a / d), Fin (b / d), Fin (c / d))))"

text \<open>
  \<^verbatim>\<open>axis[:, nan_columns] = replacement_vecs\<close>: the columns whose row 0 is NaN take the
  replacement vectors in order.
\<close>

fun assign_nan_columns :: "vec3 list \<Rightarrow> vec3 list \<Rightarrow> vec3 list" where
  "assign_nan_columns [] rs = []"
| "assign_nan_columns (v # vs) rs =
     (if isnan (row0 v) then
        (case rs of
           [] \<Rightarrow> v # assign_nan_columns vs []
         | r # rs' \<Rightarrow> r # assign_nan_columns vs rs')
      else v # assign_nan_columns vs rs)"

text \<open>
  \<^verbatim>\<open>replace_nans\<close>.  \<open>rand k\<close> is column \<open>k\<close> of the tensor that \<^verbatim>\<open>torch.rand(3, n)\<close> draws,
  with entries in the interval from 0 to 1.  The tensor written is the full-grid
  \<^verbatim>\<open>optic_axis\<close>.
\<close>

definition replace_nans :: "(nat \<Rightarrow> real \<times> real \<times> real) \<Rightarrow> volume \<Rightarrow> nat \<Rightarrow> volume" where
  "replace_nans rand vol epoch =
     (let axis = entries (optic_axis vol);
          num_nan_vecs = length (filter (\<lambda>v. isnan (row0 v)) axis)
      in if num_nan_vecs > 0 then
           (let replacement_vecs = map (\<lambda>k. F_normalize (rand k)) [0..<num_nan_vecs]
            in vol\<lparr>optic_axis := (optic_axis vol)\<lparr>entries := assign_nan_columns axis replacement_vecs\<rparr>\<rparr>)
         else vol)"

section \<open>The reconstruction loop\<close>

text \<open>
  The damping of the predicted azimuth at the end of every epoch:
  \<^verbatim>\<open>azim_damp_mask = ret_img_meas / ret_img_meas.max()\<close> and
  \<^verbatim>\<open>azim_img_pred[azim_damp_mask == 0] = 0\<close>.  The maximum of an empty image raises; the
  division does not.
\<close>

definition image_max :: "real list \<Rightarrow> error + real" where
  "image_max img = (case img of [] \<Rightarrow> Inl (ValueError ''zero-size array'') | x # xs \<Rightarrow> Inr (fold max xs x))"

definition azim_damp_mask :: "real list \<Rightarrow> error + fl list" where
  "azim_damp_mask ret_meas =
     (case image_max ret_meas of
        Inl e \<Rightarrow> Inl e
      | Inr m \<Rightarrow> Inr (map (\<lambda>x. fdiv (Fin x) (Fin m)) ret_meas))"

definition damp_azimuth :: "real list \<Rightarrow> real list \<Rightarrow> error + real list" where
  "damp_azimuth ret_meas azim_pred =
     (case azim_damp_mask ret_meas of
        Inl e \<Rightarrow> Inl e
      | Inr dm \<Rightarrow>
          (if length dm \<noteq> length azim_pred then Inl IndexError
           else Inr (map (\<lambda>(d, a). if d = Fin 0 then 0 else a) (zip dm azim_pred))))"

definition warmup_epochs :: nat where
  "warmup_epochs = 10"

definition warmup_start_proportion :: real where
  "warmup_start_proportion = 1 / 10"

definition list_get :: "'a list \<Rightarrow> nat \<Rightarrow> error + 'a" where
  "list_get xs i = (if i < length xs then Inr (xs ! i) else Inl IndexError)"

definition list_set :: "'a list \<Rightarrow> nat \<Rightarrow> 'a \<Rightarrow> error + 'a list" where
  "list_set xs i v = (if i < length xs then Inr (xs[i := v]) else Inl IndexError)"

text \<open>
  The learning-rate block at the head of the loop body.  The state is the learning
  rates of the optimizer's parameter groups and the locals \<^verbatim>\<open>lr_0\<close>, \<^verbatim>\<open>lr_1\<close>.
\<close>

definition lr_warmup ::
  "bool \<Rightarrow> real \<Rightarrow> real \<Rightarrow> nat \<Rightarrow> real list \<times> real \<times> real \<Rightarrow> error + (real list \<times> real \<times> real)" where
  "lr_warmup nerf initial_lr_0 initial_lr_1 epoch st =
     (case st of (groups, lr_0, lr_1) \<Rightarrow>
        (if epoch < warmup_epochs then
           (let lr_0' = initial_lr_0 * (warmup_start_proportion
                          + (1 - warmup_start_proportion) * (real epoch / real warmup_epochs));
                lr_1' = initial_lr_1 * (warmup_start_proportion
                          + (1 - warmup_start_proportion) * (real epoch / real warmup_epochs))
            in (case list_set groups 0 lr_0' of
                  Inl e \<Rightarrow> Inl e
                | Inr groups1 \<Rightarrow>
                    (if \<not> nerf then
                       (case list_set groups1 1 lr_1' of
                          Inl e \<Rightarrow> Inl e
                        | Inr groups2 \<Rightarrow> Inr (groups2, lr_0', lr_1'))
                     else Inr (groups1, lr_0', lr_1'))))
         else
           (case list_get groups 0 of
              Inl e \<Rightarrow> Inl e
            | Inr current_lr_0 \<Rightarrow>
                (case (if nerf then Inr lr_0 else list_get groups 1) of
                   Inl e \<Rightarrow> Inl e
                 | Inr current_lr_1 \<Rightarrow> Inr (groups, current_lr_0, current_lr_1)))))"


text \<open>
  One pass of the loop body at epoch \<open>epoch\<close>: the learning-rate block, the iteration, the
  damping of the predicted azimuth.  Returned with the new state: the learning rates the
  optimizer used in this epoch.
\<close>

record loop_state =
  recon :: reconstructor
  group_lrs :: "real list"
  lr_0 :: real
  lr_1 :: real
  used_lrs :: "real list list"








section \<open>Auxiliary definitions for the properties\<close>

text \<open>The inverse index tensor that \<^verbatim>\<open>create_parameters_from_mask\<close> builds for a mask.\<close>

definition scatter_positions :: "bool list \<Rightarrow> int list" where
  "scatter_positions vmask =
     fold (\<lambda>(i, v) acc. acc[i := v]) (zip (where_true vmask) (map int [0..<length (where_true vmask)]))
       (replicate (length vmask + 1) (- 1))"

text \<open>The scenario of ten voxels of which the voxels 1, 4 and 7 are selected.\<close>

definition scenario_mask :: "bool list" where
  "scenario_mask = [False, True, False, False, True, False, False, True, False, False]"

definition scenario_volume :: volume where
  "scenario_volume =
     \<lparr>Delta_n = Parameter [0, 1, 2, 3, 4, 5, 6, 7, 8, 9],
      optic_axis = Parameter (replicate 10 (Fin 1, Fin 0, Fin 0)),
      indices_active = None,
      active_idx2spatial_idx_tensor = None,
      optic_axis_active = None,
      optic_axis_planar = None,
      birefringence_active = None\<rparr>"

text \<open>A rays object that carries that mask, and a configuration around the scenario.\<close>

definition scenario_rays :: rays where
  "scenario_rays =
     \<lparr>MLA_volume_geometry_ready = True,
      rays_mask = Some scenario_mask,
      filtered_voxels = [1, 4, 7],
      voxels_at_least_one_nonzero_ret = [],
      voxels_repeated_zero_ret = [],
      voxels_zero_ret_lenslet = []\<rparr>"

definition scenario_config :: "pydict \<Rightarrow> reconstruction_config" where
  "scenario_config params =
     \<lparr>retardance_image = [1, 0],
      azimuth_image = [0, 0],
      initial_volume = scenario_volume,
      interation_parameters = params\<rparr>"



text \<open>A reconstructor over the scenario, and what the collaborators return in an epoch.\<close>

definition scenario_params :: pydict where
  "scenario_params =
     [''regularization_weight'' \<mapsto> PFloat 2, ''n_epochs'' \<mapsto> PInt 1,
      ''lr_optic_axis'' \<mapsto> PFloat 1, ''lr_birefringence'' \<mapsto> PFloat 1]"

definition scenario_reconstructor :: reconstructor where
  "scenario_reconstructor =
     \<lparr>ret_img_meas = [1, 0],
      azim_img_meas = [0, 0],
      volume_initial_guess = scenario_volume,
      iteration_params = scenario_params,
      the_rays = scenario_rays,
      nerf_mode = False,
      from_simulation = False,
      apply_volume_mask = False,
      voxel_mask = scenario_mask,
      volume_pred = scenario_volume\<lparr>Delta_n := Parameter [0, 1, 0, 0, 4, 0, 0, 7, 0, 0]\<rparr>,
      remove_large_arrs = False,
      two_optic_axis_components = False,
      mla_rays_at_once = False,
      intensity_bool = False,
      ret_img_pred = [],
      azim_img_pred = [],
      reg_term_values = [],
      loss_total_list = [],
      loss_data_term_list = [],
      loss_reg_term_list = [],
      adjusted_lrs_list = [],
      ep = 0\<rparr>"

definition scenario_epoch :: epoch_ext where
  "scenario_epoch =
     \<lparr>ret_image_current = [1, 0],
      azim_image_current = [0, 0],
      data_term_ext = 0,
      reg_loss_ext = 1,
      reg_term_values_ext = [1],
      stepped_birefringence = [1, 4, 7],
      stepped_optic_axis = [(Fin 3, Fin 0, Fin 4), (Fin 0, Fin 1, Fin 0), (Fin 0, Fin 0, Fin 2)],
      stepped_planar = [(Fin 0, Fin 0), (Fin 1, Fin 0), (Fin 0, Fin 0)],
      scheduler_step = id,
      adjusted_lrs_ext = [1, 1]\<rparr>"


text \<open>A loss object with targets of two pixels.\<close>

definition scenario_loss :: PolarimetricLossFunction where
  "scenario_loss =
     \<lparr>weight_retardance = 1, weight_orientation = 1, weight_datafidelity = 1,
      weight_regularization = 1 / 10,
      target_retardance = Some [1, 0], target_orientation = Some [0, 0]\<rparr>"

text \<open>
  The Euclidean norm of a drawn vector, vectors without special values, and the number
  of columns that \<^verbatim>\<open>replace_nans\<close> takes for NaN.
\<close>

definition sample_norm :: "real \<times> real \<times> real \<Rightarrow> real" where
  "sample_norm v = (case v of (a, b, c) \<Rightarrow> sqrt (a\<^sup>2 + b\<^sup>2 + c\<^sup>2))"

definition finite3 :: "vec3 \<Rightarrow> bool" where
  "finite3 v = (case v of (a, b, c) \<Rightarrow> isfinite a \<and> isfinite b \<and> isfinite c)"

definition nan_columns :: "vec3 list \<Rightarrow> nat" where
  "nan_columns axis = length (filter (\<lambda>v. isnan (row0 v)) axis)"

text \<open>A random source that always draws the same vector, and a volume with given optic axes.\<close>

definition scenario_rand :: "nat \<Rightarrow> real \<times> real \<times> real" where
  "scenario_rand k = (0, 0, 1 / 2)"

definition nan_volume :: "vec3 list \<Rightarrow> volume" where
  "nan_volume axis = scenario_volume\<lparr>optic_axis := Parameter axis\<rparr>"

text \<open>A vector with a Euclidean norm of 1 up to \<^verbatim>\<open>1e-5\<close>.\<close>

definition unit_norm :: "vec3 \<Rightarrow> bool" where
  "unit_norm v = (case norm3 v of Fin n \<Rightarrow> \<bar>n - 1\<bar> \<le> 1 / 100000 | _ \<Rightarrow> False)"

text \<open>
  The scenario with the active parameters derived, and the scenario in two-component
  mode: its volume and a reconstructor around it.
\<close>

definition scenario_active :: reconstructor where
  "scenario_active =
     scenario_reconstructor\<lparr>volume_pred :=
       scenario_volume\<lparr>Delta_n := Parameter [0, 1, 0, 0, 4, 0, 0, 7, 0, 0],
            indices_active := Some [1, 4, 7],
            active_idx2spatial_idx_tensor := Some [- 1, 0, - 1, - 1, 1, - 1, - 1, 2, - 1, - 1, - 1],
            optic_axis_active := Some (Parameter [(Fin 1, Fin 0, Fin 0), (Fin 1, Fin 0, Fin 0), (Fin 1, Fin 0, Fin 0)]),
            birefringence_active := Some (Parameter [1, 4, 7])\<rparr>\<rparr>"

definition scenario_two_component :: volume where
  "scenario_two_component =
     scenario_volume\<lparr>indices_active := Some [1, 4, 7],
        active_idx2spatial_idx_tensor := Some [- 1, 0, - 1, - 1, 1, - 1, - 1, 2, - 1, - 1, - 1],
        optic_axis := \<lparr>entries = replicate 10 (Fin 1, Fin 0, Fin 0), requires_grad = False\<rparr>,
        optic_axis_active :=
          Some \<lparr>entries = [(Fin 1, Fin 0, Fin 0), (Fin 1, Fin 0, Fin 0), (Fin 1, Fin 0, Fin 0)],
                requires_grad = False\<rparr>,
        optic_axis_planar := Some (Parameter [(Fin 0, Fin 0), (Fin 0, Fin 0), (Fin 0, Fin 0)]),
        birefringence_active := Some (Parameter [1, 4, 7])\<rparr>"

definition scenario_active_two :: reconstructor where
  "scenario_active_two =
     scenario_reconstructor\<lparr>two_optic_axis_components := True,
       volume_pred := scenario_two_component\<rparr>"

text \<open>
  The number that a float32 tensor holds where \<open>\<pi>\<close> was added to an azimuth of 0: the
  float32 number nearest to \<open>\<pi>\<close>, 3.1415927410125732.  A loss object with a target of
  one pixel.
\<close>

definition float32_pi :: real where
  "float32_pi = 13176795 / 4194304"

definition pixel_loss :: PolarimetricLossFunction where
  "pixel_loss =
     \<lparr>weight_retardance = 1, weight_orientation = 1, weight_datafidelity = 1,
      weight_regularization = 1 / 10,
      target_retardance = Some [1], target_orientation = Some [0]\<rparr>"


section \<open>The active parameter set\<close>

lemma where_true_sorted: "sorted (where_true m) \<and> distinct (where_true m)"
  by (simp add: where_true_def sorted_wrt_filter)

lemma where_true_set: "set (where_true m) = {i. i < length m \<and> m ! i}"
  by (auto simp: where_true_def)

lemma where_true_length: "length (where_true m) = length (filter (\<lambda>b. b) m)"
proof -
  have "map (\<lambda>i. m ! i) (filter (\<lambda>i. m ! i) [0..<length m])
          = filter (\<lambda>b. b) (map (\<lambda>i. m ! i) [0..<length m])"
    by (simp add: filter_map comp_def)
  also have "map (\<lambda>i. m ! i) [0..<length m] = m"
    by (rule map_nth)
  finally have "length (map (\<lambda>i. m ! i) (where_true m)) = length (filter (\<lambda>b. b) m)"
    by (simp add: where_true_def)
  then show ?thesis by simp
qed

lemma fold_update_length:
  "length (fold (\<lambda>(i, v) acc. acc[i := v]) ps t) = length t"
  by (induction ps arbitrary: t) (auto split: prod.splits)

lemma fold_update_other:
  "i \<notin> fst ` set ps \<Longrightarrow> fold (\<lambda>(i, v) acc. acc[i := v]) ps t ! i = t ! i"
  by (induction ps arbitrary: t) (auto split: prod.splits)

lemma fold_update_hit:
  "distinct idxs \<Longrightarrow> length idxs = length vals \<Longrightarrow> \<forall>i \<in> set idxs. i < length t \<Longrightarrow>
   j < length idxs \<Longrightarrow>
   fold (\<lambda>(i, v) acc. acc[i := v]) (zip idxs vals) t ! (idxs ! j) = vals ! j"
proof (induction idxs arbitrary: vals t j)
  case Nil
  then show ?case by simp
next
  case (Cons a idxs)
  then obtain v vs where vals: "vals = v # vs" by (cases vals) auto
  show ?case
  proof (cases j)
    case 0
    have "a \<notin> fst ` set (zip idxs vs)"
      using Cons.prems(1) by (auto dest: set_zip_leftD)
    then show ?thesis using 0 vals Cons.prems
      by (simp add: fold_update_other)
  next
    case (Suc k)
    then show ?thesis using vals Cons.prems Cons.IH[of vs "t[a := v]" k]
      by simp
  qed
qed

lemma index_put_positions:
  "index_put (replicate (length vmask + 1) (- 1)) (where_true vmask)
     (map int [0..<length (where_true vmask)]) = Inr (scatter_positions vmask)"
  by (auto simp: index_put_def scatter_positions_def where_true_set)

lemma index_select_where_true:
  "length vmask \<le> length t \<Longrightarrow>
   index_select t (where_true vmask) = Inr (map (\<lambda>i. t ! i) (where_true vmask))"
  by (auto simp: index_select_def where_true_set)

lemma create_parameters_from_mask_returns:
  assumes "length vmask \<le> length (entries (Delta_n vol))"
    and "length vmask \<le> length (entries (optic_axis vol))"
  shows "create_parameters_from_mask two_comp vol vmask =
     Inr (if two_comp then
            vol\<lparr>indices_active := Some (where_true vmask),
                active_idx2spatial_idx_tensor := Some (scatter_positions vmask),
                optic_axis := (optic_axis vol)\<lparr>requires_grad := False\<rparr>,
                optic_axis_active :=
                  Some \<lparr>entries = map (\<lambda>i. entries (optic_axis vol) ! i) (where_true vmask),
                        requires_grad = False\<rparr>,
                optic_axis_planar :=
                  Some (Parameter (map (\<lambda>i. rows12 (entries (optic_axis vol) ! i)) (where_true vmask))),
                birefringence_active :=
                  Some (Parameter (map (\<lambda>i. entries (Delta_n vol) ! i) (where_true vmask)))\<rparr>
          else
            vol\<lparr>indices_active := Some (where_true vmask),
                active_idx2spatial_idx_tensor := Some (scatter_positions vmask),
                optic_axis_active :=
                  Some (Parameter (map (\<lambda>i. entries (optic_axis vol) ! i) (where_true vmask))),
                birefringence_active :=
                  Some (Parameter (map (\<lambda>i. entries (Delta_n vol) ! i) (where_true vmask)))\<rparr>)"
  unfolding create_parameters_from_mask_def Let_def index_put_positions
  using assms
  by (simp add: index_select_where_true select_tensor_def comp_def)

lemma scatter_positions_length: "length (scatter_positions vmask) = length vmask + 1"
  by (simp add: scatter_positions_def fold_update_length)

lemma scatter_positions_active:
  "j < length (where_true vmask) \<Longrightarrow> scatter_positions vmask ! (where_true vmask ! j) = int j"
  unfolding scatter_positions_def
  by (subst fold_update_hit) (auto simp: where_true_sorted where_true_set)

lemma scatter_positions_inactive:
  "i \<notin> set (where_true vmask) \<Longrightarrow> i \<le> length vmask \<Longrightarrow> scatter_positions vmask ! i = - 1"
proof -
  assume a: "i \<notin> set (where_true vmask)" and b: "i \<le> length vmask"
  have "i \<notin> fst ` set (zip (where_true vmask) (map int [0..<length (where_true vmask)]))"
    using a by (auto dest: set_zip_leftD)
  then have "scatter_positions vmask ! i = replicate (length vmask + 1) (- 1) ! i"
    unfolding scatter_positions_def by (rule fold_update_other)
  also have "\<dots> = - 1"
    using b by (intro nth_replicate) simp
  finally show ?thesis .
qed

text \<open>
  C7.  For a mask over as many voxels as the volume has, \<^verbatim>\<open>create_parameters_from_mask\<close>
  returns, in both optic-axis modes.  The active index list holds exactly the positions
  of the true mask entries, in strictly ascending order, so the active birefringence
  and the active optic axis have as many entries as the mask has true entries, and entry
  \<open>j\<close> of either is the full-grid entry of the \<open>j\<close>-th active voxel.  The inverse index
  tensor has one entry more than the mask; it maps the \<open>j\<close>-th active voxel to \<open>j\<close>,
  counting from 0, and is \<open>-1\<close> everywhere else.
\<close>

theorem active_parameters_from_mask:
  assumes "length (entries (Delta_n vol)) = length vmask"
    and "length (entries (optic_axis vol)) = length vmask"
  shows "\<exists>vol' act idx bir ax.
     create_parameters_from_mask two_comp vol vmask = Inr vol'
     \<and> indices_active vol' = Some act
     \<and> active_idx2spatial_idx_tensor vol' = Some idx
     \<and> birefringence_active vol' = Some bir
     \<and> optic_axis_active vol' = Some ax
     \<and> length (entries bir) = length (filter (\<lambda>b. b) vmask)
     \<and> length (entries ax) = length (filter (\<lambda>b. b) vmask)
     \<and> length act = length (filter (\<lambda>b. b) vmask)
     \<and> sorted act \<and> distinct act
     \<and> set act = {i. i < length vmask \<and> vmask ! i}
     \<and> length idx = length vmask + 1
     \<and> (\<forall>j < length act. idx ! (act ! j) = int j
            \<and> entries bir ! j = entries (Delta_n vol) ! (act ! j)
            \<and> entries ax ! j = entries (optic_axis vol) ! (act ! j))
     \<and> (\<forall>i \<le> length vmask. i \<notin> set act \<longrightarrow> idx ! i = - 1)"
  using assms
  by (cases two_comp)
     (simp_all add: create_parameters_from_mask_returns where_true_length where_true_sorted
        where_true_set scatter_positions_length scatter_positions_active
        scatter_positions_inactive Parameter_def)

text \<open>
  The scenario: the mask over 10 voxels that selects the voxels 1, 4 and 7 gives active
  tensors of length 3 and the inverse index tensor of 11 entries with 1 \<mapsto> 0, 4 \<mapsto> 1,
  7 \<mapsto> 2 and \<open>-1\<close> elsewhere.
\<close>

theorem active_parameters_from_mask_witness:
  "\<exists>vol' bir ax.
     create_parameters_from_mask False scenario_volume scenario_mask = Inr vol'
     \<and> indices_active vol' = Some [1, 4, 7]
     \<and> active_idx2spatial_idx_tensor vol' = Some [- 1, 0, - 1, - 1, 1, - 1, - 1, 2, - 1, - 1, - 1]
     \<and> birefringence_active vol' = Some bir \<and> length (entries bir) = 3
     \<and> optic_axis_active vol' = Some ax \<and> length (entries ax) = 3"
proof -
  have len: "length (entries (Delta_n scenario_volume)) = length scenario_mask"
    "length (entries (optic_axis scenario_volume)) = length scenario_mask"
    by (simp_all add: scenario_volume_def scenario_mask_def Parameter_def)
  have wt: "where_true scenario_mask = [1, 4, 7]"
    by (simp add: where_true_def scenario_mask_def upt_rec)
  from active_parameters_from_mask [OF len, of False]
  obtain vol' act idx bir ax where r:
     "create_parameters_from_mask False scenario_volume scenario_mask = Inr vol'"
     "indices_active vol' = Some act"
     "active_idx2spatial_idx_tensor vol' = Some idx"
     "birefringence_active vol' = Some bir"
     "optic_axis_active vol' = Some ax"
     "length (entries bir) = length (filter (\<lambda>b. b) scenario_mask)"
     "length (entries ax) = length (filter (\<lambda>b. b) scenario_mask)"
    by blast
  have "vol' = projr (create_parameters_from_mask False scenario_volume scenario_mask)"
    using r(1) by simp
  then have "indices_active vol' = Some [1, 4, 7]
     \<and> active_idx2spatial_idx_tensor vol' = Some [- 1, 0, - 1, - 1, 1, - 1, - 1, 2, - 1, - 1, - 1]"
    unfolding create_parameters_from_mask_def Let_def wt
    by (simp add: index_put_def index_select_def scenario_volume_def scenario_mask_def
        Parameter_def)
  moreover have "length (filter (\<lambda>b. b) scenario_mask) = 3"
    by (simp add: scenario_mask_def)
  ultimately show ?thesis using r by simp
qed

section \<open>Construction of the Reconstructor\<close>


lemma apply_mask_length:
  assumes "apply_mask_to_volume m vol = Inr vol'"
    and "length (entries (Delta_n vol)) = length m"
  shows "length (entries (Delta_n vol')) = length m"
  using assms by (auto simp: apply_mask_to_volume_def Parameter_def broadcast2_def split: sum.splits)


text \<open>
  C6.  When the configuration asks for the removal of the large arrays
  (\<^verbatim>\<open>free_memory_by_del_large_arrays\<close>) and the constructor is called with
  \<^verbatim>\<open>apply_volume_mask\<close>, the construction ends in the configuration error (a
  \<^verbatim>\<open>ValueError\<close>) as soon as the ray tracer is set up: no mask is built, no reconstructor
  exists, no iteration can run.  Only a failure of the ray-tracer setup, which comes
  first, is raised in its place.
\<close>

theorem construction_rejects_removal_with_masking:
  assumes "truthy (dict_get (interation_parameters recon_info)
             ''free_memory_by_del_large_arrays'' (PBool False))"
  shows "Reconstructor_init setup prepare recon_info True =
           (case setup of
              Inl e \<Rightarrow> Inl e
            | Inr rs \<Rightarrow> Inl (ValueError ''Cannot remove large arrays and apply mask tovolume gradient at the same time.''))"
  using assms by (simp add: Reconstructor_init_def Let_def split: sum.splits)

theorem construction_rejects_removal_with_masking_witness:
  "truthy (dict_get (interation_parameters
      (scenario_config [''free_memory_by_del_large_arrays'' \<mapsto> PBool True]))
      ''free_memory_by_del_large_arrays'' (PBool False))
   \<and> Reconstructor_init (Inr scenario_rays) Inr
        (scenario_config [''free_memory_by_del_large_arrays'' \<mapsto> PBool True]) True
      = Inl (ValueError ''Cannot remove large arrays and apply mask tovolume gradient at the same time.'')"
proof -
  have h: "truthy (dict_get (interation_parameters
      (scenario_config [''free_memory_by_del_large_arrays'' \<mapsto> PBool True]))
      ''free_memory_by_del_large_arrays'' (PBool False))"
    by (simp add: scenario_config_def dict_get_def)
  show ?thesis
    using h construction_rejects_removal_with_masking [OF h, of "Inr scenario_rays" Inr]
    by simp
qed

lemma split_ws_vector: "split_ws [] ''vector'' = [''vector'']"
  by (simp add: is_space_def)







section \<open>The recorded losses\<close>











lemma scenario_compute_loss:
  "compute_loss scenario_params 0 1 = Inr ((2, 0, 2), scenario_params)"
  by (simp add: compute_loss_def scenario_params_def Let_def)








section \<open>The vector-form data term\<close>

lemma cos_double_shift: "cos (2 * (a + pi)) = cos (2 * a)"
  by (simp add: distrib_left)

lemma sin_double_shift: "sin (2 * (a + pi)) = sin (2 * a)"
  by (simp add: distrib_left)

lemma transform_azimuth_period:
  "transform_ret_azim_to_vector_form ret (map (\<lambda>a. a + pi) azim)
     = transform_ret_azim_to_vector_form ret azim"
proof -
  have hd_map: "length azim = 1 \<Longrightarrow> hd (map (\<lambda>a. a + pi) azim) = hd azim + pi"
    by (cases azim) simp_all
  show ?thesis
    unfolding transform_ret_azim_to_vector_form_def broadcast2_def
    by (auto simp: zip_map2 comp_def case_prod_unfold cos_double_shift sin_double_shift hd_map)
qed

lemma vector_loss_example:
  "vector_loss scenario_loss [1, 2] [pi / 2, 0] = Inr (Fin 4)"
  by (simp add: vector_loss_def scenario_loss_def transform_ret_azim_to_vector_form_def
      broadcast2_def mse_loss_def)

text \<open>
  C8.  In exact real arithmetic the vector-form data term does not change when \<open>\<pi>\<close> is
  added to every azimuth value, of the predicted image or of the target: the transform
  into vector form takes the cosine and the sine of twice the azimuth.  An error result
  (no target set, shapes that do not broadcast) and the NaN of empty images are the same
  on both sides as well.  For the floating-point tensors of the program the equality
  holds up to rounding only, as the last theorem of this section shows.
\<close>

theorem vector_loss_azimuth_period:
  "vector_loss L ret_pred (map (\<lambda>a. a + pi) azim_pred) = vector_loss L ret_pred azim_pred
   \<and> vector_loss (set_orientation_target L (map (\<lambda>a. a + pi) azim_gt)) ret_pred azim_pred
       = vector_loss (set_orientation_target L azim_gt) ret_pred azim_pred
   \<and> compute_datafidelity_term L ret_pred (map (\<lambda>a. a + pi) azim_pred) ''vector''
       = compute_datafidelity_term L ret_pred azim_pred ''vector''"
  unfolding vector_loss_def compute_datafidelity_term_def set_orientation_target_def
    transform_azimuth_period
  by (simp split: option.splits add: transform_azimuth_period)

theorem vector_loss_azimuth_period_witness:
  "vector_loss scenario_loss [1, 2] (map (\<lambda>a. a + pi) [pi / 2, 0]) = Inr (Fin 4)"
  using vector_loss_azimuth_period [of scenario_loss "[1, 2]" "[pi / 2, 0]"] vector_loss_example
  by simp

subsection \<open>The data term of a rounded azimuth\<close>

text \<open>
  Bounds of \<open>\<pi>\<close> from Machin's formula in Euler's form and the alternating series of the
  arctangent: an odd number of terms is above the arctangent of a number between 0 and 1,
  an even number of terms is below it.
\<close>

lemma arctan_upper:
  fixes x :: real
  assumes "0 \<le> x" "x \<le> 1"
  shows "arctan x \<le> (\<Sum>i<2 * n + 1. (- 1) ^ i * (1 / real (i * 2 + 1) * x ^ (i * 2 + 1)))"
proof -
  let ?a = "\<lambda>n. 1 / real (n * 2 + 1) * x ^ (n * 2 + 1)"
  have ax: "\<bar>x\<bar> \<le> 1" using assms by simp
  have zero: "?a \<longlonglongrightarrow> 0" by (rule zeroseq_arctan_series [OF ax])
  have pos: "\<And>n. 0 \<le> ?a n" using assms by simp
  have mono: "\<And>n. ?a (Suc n) \<le> ?a n"
  proof -
    fix n
    have "x ^ (Suc n * 2 + 1) \<le> x ^ (n * 2 + 1)"
      using assms by (intro power_decreasing) simp_all
    moreover have "1 / real (Suc n * 2 + 1) \<le> 1 / real (n * 2 + 1)"
      by (intro divide_left_mono) simp_all
    ultimately show "?a (Suc n) \<le> ?a n"
      using assms by (intro mult_mono) simp_all
  qed
  have "(\<Sum>i. (- 1) ^ i * ?a i) \<le> (\<Sum>i<2 * n + 1. (- 1) ^ i * ?a i)"
    by (rule summable_Leibniz'(4) [OF zero pos mono])
  then show ?thesis using arctan_series [OF ax] by simp
qed

lemma pi_upper: "pi < float32_pi"
proof -
  have a: "arctan (1 / 7) \<le> (\<Sum>i<2 * 2 + 1. (- 1) ^ i * (1 / real (i * 2 + 1) * (1 / 7 :: real) ^ (i * 2 + 1)))"
    by (rule arctan_upper) simp_all
  have b: "arctan (3 / 79) \<le> (\<Sum>i<2 * 1 + 1. (- 1) ^ i * (1 / real (i * 2 + 1) * (3 / 79 :: real) ^ (i * 2 + 1)))"
    by (rule arctan_upper) simp_all
  have "pi = 4 * (5 * arctan (1 / 7) + 2 * arctan (3 / 79))"
    using machin_Euler by simp
  also have "\<dots> \<le> 4 * (5 * (\<Sum>i<2 * 2 + 1. (- 1) ^ i * (1 / real (i * 2 + 1) * (1 / 7 :: real) ^ (i * 2 + 1)))
        + 2 * (\<Sum>i<2 * 1 + 1. (- 1) ^ i * (1 / real (i * 2 + 1) * (3 / 79 :: real) ^ (i * 2 + 1))))"
    using a b by simp
  also have "\<dots> < float32_pi"
    by (simp add: float32_pi_def eval_nat_numeral)
  finally show ?thesis .
qed

lemma pi_ge_three: "3 \<le> pi"
proof -
  have "sin (pi / 6) \<le> pi / 6" by (rule sin_x_le_x) simp
  then show ?thesis by (simp add: sin_30)
qed

lemma arctan_lower:
  fixes x :: real
  assumes "0 \<le> x" "x \<le> 1"
  shows "(\<Sum>i<2 * n. (- 1) ^ i * (1 / real (i * 2 + 1) * x ^ (i * 2 + 1))) \<le> arctan x"
proof -
  let ?a = "\<lambda>n. 1 / real (n * 2 + 1) * x ^ (n * 2 + 1)"
  have ax: "\<bar>x\<bar> \<le> 1" using assms by simp
  have zero: "?a \<longlonglongrightarrow> 0" by (rule zeroseq_arctan_series [OF ax])
  have pos: "\<And>n. 0 \<le> ?a n" using assms by simp
  have mono: "\<And>n. ?a (Suc n) \<le> ?a n"
  proof -
    fix n
    have "x ^ (Suc n * 2 + 1) \<le> x ^ (n * 2 + 1)"
      using assms by (intro power_decreasing) simp_all
    moreover have "1 / real (Suc n * 2 + 1) \<le> 1 / real (n * 2 + 1)"
      by (intro divide_left_mono) simp_all
    ultimately show "?a (Suc n) \<le> ?a n"
      using assms by (intro mult_mono) simp_all
  qed
  have "(\<Sum>i<2 * n. (- 1) ^ i * ?a i) \<le> (\<Sum>i. (- 1) ^ i * ?a i)"
    by (rule summable_Leibniz'(2) [OF zero pos mono])
  then show ?thesis using arctan_series [OF ax] by simp
qed

lemma pi_lower: "float32_pi - 1 / 2 ^ 23 < pi"
proof -
  have a: "(\<Sum>i<2 * 3. (- 1) ^ i * (1 / real (i * 2 + 1) * (1 / 7 :: real) ^ (i * 2 + 1))) \<le> arctan (1 / 7)"
    by (rule arctan_lower) simp_all
  have b: "(\<Sum>i<2 * 2. (- 1) ^ i * (1 / real (i * 2 + 1) * (3 / 79 :: real) ^ (i * 2 + 1))) \<le> arctan (3 / 79)"
    by (rule arctan_lower) simp_all
  have "float32_pi - 1 / 2 ^ 23 < 4 * (5 * (\<Sum>i<2 * 3. (- 1) ^ i * (1 / real (i * 2 + 1) * (1 / 7 :: real) ^ (i * 2 + 1)))
        + 2 * (\<Sum>i<2 * 2. (- 1) ^ i * (1 / real (i * 2 + 1) * (3 / 79 :: real) ^ (i * 2 + 1))))"
    by (simp add: float32_pi_def eval_nat_numeral)
  also have "\<dots> \<le> 4 * (5 * arctan (1 / 7) + 2 * arctan (3 / 79))"
    using a b by simp
  also have "\<dots> = pi"
    using machin_Euler by simp
  finally show ?thesis .
qed

lemma sin_twice_float32_pi: "0 < sin (2 * float32_pi)"
proof -
  have lo: "0 < 2 * float32_pi - 2 * pi" using pi_upper by simp
  have "float32_pi < 7 / 2" by (simp add: float32_pi_def)
  then have hi: "2 * float32_pi - 2 * pi < pi" using pi_ge_three by simp
  have "sin (2 * float32_pi - 2 * pi) = sin (2 * float32_pi)"
    using sin_periodic [of "2 * float32_pi - 2 * pi"] by simp
  then show ?thesis using sin_gt_zero [OF lo hi] by simp
qed

lemma vector_loss_pixel:
  "vector_loss pixel_loss [1] [a] = Inr (Fin ((cos (2 * a) - 1)\<^sup>2 + (sin (2 * a))\<^sup>2))"
  by (simp add: vector_loss_def pixel_loss_def transform_ret_azim_to_vector_form_def
      broadcast2_def mse_loss_def)

text \<open>
  The tensor \<^verbatim>\<open>azim + pi\<close> of a float32 azimuth image holds the float32 number nearest to
  each sum.  For an azimuth of 0 that is \<^verbatim>\<open>float32_pi\<close>, 13176795 / 2^22: a float32 number
  (24 significant bits, spacing 2^-22 between 2 and 4) that is less than half a spacing,
  2^-23, from \<open>\<pi>\<close>.  It is above \<open>\<pi>\<close>, so twice that azimuth is not a multiple of
  \<open>2\<pi>\<close> away from 0: with a target of retardance 1 and azimuth 0, the data term of the
  prediction (1, 0) is 0 and that of the prediction (1, 0 + \<open>\<pi>\<close>), as the tensor holds it,
  is not, even with every later operation carried out exactly.
\<close>

theorem vector_loss_rounded_counterexample:
  "vector_loss pixel_loss [1] [0] = Inr (Fin 0)
   \<and> vector_loss pixel_loss [1] [0 + float32_pi] \<noteq> vector_loss pixel_loss [1] [0]
   \<and> \<bar>float32_pi - pi\<bar> < 1 / 2 ^ 23"
proof -
  have a: "vector_loss pixel_loss [1] [0] = Inr (Fin 0)"
    by (simp add: vector_loss_pixel)
  have "(sin (2 * float32_pi))\<^sup>2 > 0" using sin_twice_float32_pi by simp
  moreover have "(cos (2 * float32_pi) - 1)\<^sup>2 \<ge> 0" by simp
  ultimately have "(cos (2 * float32_pi) - 1)\<^sup>2 + (sin (2 * float32_pi))\<^sup>2 \<noteq> 0"
    by linarith
  then have b: "vector_loss pixel_loss [1] [0 + float32_pi] \<noteq> vector_loss pixel_loss [1] [0]"
    by (simp add: vector_loss_pixel)
  have c: "\<bar>float32_pi - pi\<bar> < 1 / 2 ^ 23" using pi_upper pi_lower by linarith
  show ?thesis using a b c by blast
qed

section \<open>The damping of the predicted azimuth\<close>

lemma fdiv_zero_not_zero: "fdiv (Fin x) (Fin 0) \<noteq> Fin 0 \<and> \<not> isfinite (fdiv (Fin x) (Fin 0))"
  by (simp add: signed_inf_def)

lemma azim_damp_mask_unguarded:
  "image_max ret_meas = Inr m \<Longrightarrow>
   azim_damp_mask ret_meas = Inr (map (\<lambda>x. fdiv (Fin x) (Fin m)) ret_meas)"
  by (simp add: azim_damp_mask_def)

lemma map_zip_keep:
  "length ds = length xs \<Longrightarrow> \<forall>d \<in> set ds. d \<noteq> Fin 0 \<Longrightarrow>
   map (\<lambda>(d, a). if d = Fin 0 then 0 else a) (zip ds xs) = (xs :: real list)"
proof (induction ds arbitrary: xs)
  case Nil
  then show ?case by simp
next
  case (Cons d ds)
  then obtain y ys where "xs = y # ys" by (cases xs) auto
  with Cons show ?case by simp
qed

text \<open>
  C3, as the code has it.  The division of the measured retardance by its maximum is
  not guarded.  When the maximum is exactly zero, every entry of the damping mask is the
  result of a division by zero: NaN for a pixel that is zero, an infinity otherwise.
  Nothing is raised; as no entry of the mask compares equal to 0, the damping leaves the
  predicted azimuth image as it is.  (\<^verbatim>\<open>vector_loss\<close> itself never divides by the maximum
  of the retardance.)
\<close>

theorem damping_divides_by_zero_maximum:
  assumes "image_max ret_meas = Inr 0"
    and "length azim_pred = length ret_meas"
  shows "azim_damp_mask ret_meas = Inr (map (\<lambda>x. fdiv (Fin x) (Fin 0)) ret_meas)
     \<and> (\<forall>i < length ret_meas.
           \<not> isfinite (map (\<lambda>x. fdiv (Fin x) (Fin 0)) ret_meas ! i)
           \<and> (ret_meas ! i = 0 \<longrightarrow> map (\<lambda>x. fdiv (Fin x) (Fin 0)) ret_meas ! i = NaN))
     \<and> damp_azimuth ret_meas azim_pred = Inr azim_pred"
proof -
  have m: "azim_damp_mask ret_meas = Inr (map (\<lambda>x. fdiv (Fin x) (Fin 0)) ret_meas)"
    using assms(1) by (rule azim_damp_mask_unguarded)
  have "\<forall>d \<in> set (map (\<lambda>x. fdiv (Fin x) (Fin 0)) ret_meas). d \<noteq> Fin 0"
    by (auto simp: signed_inf_def)
  then have "map (\<lambda>(d, a). if d = Fin 0 then 0 else a)
               (zip (map (\<lambda>x. fdiv (Fin x) (Fin 0)) ret_meas) azim_pred) = azim_pred"
    using assms(2) by (intro map_zip_keep) simp_all
  then have "damp_azimuth ret_meas azim_pred = Inr azim_pred"
    using m assms(2) by (simp add: damp_azimuth_def)
  then show ?thesis
    using m by (simp add: signed_inf_def)
qed

theorem damping_divides_by_zero_maximum_witness:
  "image_max [0, 0] = Inr 0 \<and> length [1, 2 :: real] = length [0, 0 :: real]
   \<and> azim_damp_mask [0, 0] = Inr [NaN, NaN]
   \<and> damp_azimuth [0, 0] [1, 2] = Inr [1, 2]"
proof -
  have h: "image_max [0, 0] = Inr 0" "length [1, 2 :: real] = length [0, 0 :: real]"
    by (simp_all add: image_max_def)
  from damping_divides_by_zero_maximum [OF h] show ?thesis
    using h by simp
qed

text \<open>
  An all-zero measured retardance image of two pixels: the maximum is zero and both
  entries of the damping mask are the quotient \<open>0 / 0\<close>, which is NaN.
\<close>

theorem damping_guard_counterexample:
  "image_max [0, 0] = Inr 0 \<and> azim_damp_mask [0, 0] = Inr [fdiv (Fin 0) (Fin 0), fdiv (Fin 0) (Fin 0)]
   \<and> fdiv (Fin 0) (Fin 0) = NaN"
  by (simp add: image_max_def azim_damp_mask_def)

section \<open>Recovery from NaN optic axes\<close>

lemma unit_after_division:
  fixes a b c :: real
  assumes "0 < sqrt (a\<^sup>2 + b\<^sup>2 + c\<^sup>2)"
  shows "sqrt (a / sqrt (a\<^sup>2 + b\<^sup>2 + c\<^sup>2) * (a / sqrt (a\<^sup>2 + b\<^sup>2 + c\<^sup>2))
             + b / sqrt (a\<^sup>2 + b\<^sup>2 + c\<^sup>2) * (b / sqrt (a\<^sup>2 + b\<^sup>2 + c\<^sup>2))
             + c / sqrt (a\<^sup>2 + b\<^sup>2 + c\<^sup>2) * (c / sqrt (a\<^sup>2 + b\<^sup>2 + c\<^sup>2))) = 1"
proof -
  define n where "n = sqrt (a\<^sup>2 + b\<^sup>2 + c\<^sup>2)"
  have n: "0 < n" using assms by (simp add: n_def)
  have "0 \<le> a\<^sup>2 + b\<^sup>2 + c\<^sup>2" by simp
  then have nn: "n * n = a * a + b * b + c * c"
    unfolding n_def by (simp add: power2_eq_square)
  have "a / n * (a / n) + b / n * (b / n) + c / n * (c / n) = (a * a + b * b + c * c) / (n * n)"
    by (simp add: add_divide_distrib)
  also have "\<dots> = (n * n) / (n * n)" by (simp only: nn)
  also have "\<dots> = 1" using n by simp
  finally have "sqrt (a / n * (a / n) + b / n * (b / n) + c / n * (c / n)) = 1" by simp
  then show ?thesis by (simp only: n_def)
qed

lemma F_normalize_unit:
  assumes "normalize_eps \<le> sample_norm v"
  shows "finite3 (F_normalize v) \<and> norm3 (F_normalize v) = Fin 1"
proof -
  obtain a b c where v: "v = (a, b, c)" by (cases v) auto
  have "0 < normalize_eps" by (simp add: normalize_eps_def)
  moreover have le: "normalize_eps \<le> sqrt (a\<^sup>2 + b\<^sup>2 + c\<^sup>2)"
    using assms v by (simp only: sample_norm_def prod.case)
  ultimately have pos: "0 < sqrt (a\<^sup>2 + b\<^sup>2 + c\<^sup>2)" by (rule less_le_trans)
  have m: "max (sqrt (a\<^sup>2 + b\<^sup>2 + c\<^sup>2)) normalize_eps = sqrt (a\<^sup>2 + b\<^sup>2 + c\<^sup>2)"
    using le by (simp only: max_def) simp
  have "F_normalize v = (Fin (a / sqrt (a\<^sup>2 + b\<^sup>2 + c\<^sup>2)), Fin (b / sqrt (a\<^sup>2 + b\<^sup>2 + c\<^sup>2)),
          Fin (c / sqrt (a\<^sup>2 + b\<^sup>2 + c\<^sup>2)))"
    unfolding v F_normalize_def Let_def prod.case m ..
  then show ?thesis
    using unit_after_division [OF pos] by (simp add: norm3_def finite3_def)
qed

lemma assign_nan_columns_length: "length (assign_nan_columns axis rs) = length axis"
  by (induction axis rs rule: assign_nan_columns.induct) (auto split: list.splits)

lemma assign_nan_columns_nth:
  "nan_columns axis \<le> length rs \<Longrightarrow> j < length axis \<Longrightarrow>
   assign_nan_columns axis rs ! j =
     (if isnan (row0 (axis ! j)) then rs ! nan_columns (take j axis) else axis ! j)"
proof (induction axis arbitrary: rs j)
  case Nil
  then show ?case by simp
next
  case (Cons v vs)
  show ?case
  proof (cases "isnan (row0 v)")
    case True
    then obtain r rs' where rs: "rs = r # rs'"
      using Cons.prems(1) by (cases rs) (auto simp: nan_columns_def)
    have le: "nan_columns vs \<le> length rs'"
      using Cons.prems(1) True rs by (simp add: nan_columns_def)
    show ?thesis
    proof (cases j)
      case 0
      then show ?thesis using True rs by (simp add: nan_columns_def)
    next
      case (Suc k)
      then have "k < length vs" using Cons.prems(2) by simp
      from Cons.IH [OF le this] show ?thesis
        using True rs Suc by (simp add: nan_columns_def)
    qed
  next
    case False
    have le: "nan_columns vs \<le> length rs"
      using Cons.prems(1) False by (simp add: nan_columns_def)
    show ?thesis
    proof (cases j)
      case 0
      then show ?thesis using False by simp
    next
      case (Suc k)
      then have "k < length vs" using Cons.prems(2) by simp
      from Cons.IH [OF le this] show ?thesis
        using False Suc by (simp add: nan_columns_def)
    qed
  qed
qed

lemma nan_columns_take: "j < length axis \<Longrightarrow> isnan (row0 (axis ! j)) \<Longrightarrow>
   nan_columns (take j axis) < nan_columns axis"
proof -
  assume j: "j < length axis" and n: "isnan (row0 (axis ! j))"
  have "axis = take j axis @ axis ! j # drop (Suc j) axis"
    using j by (rule id_take_nth_drop)
  then have "nan_columns axis =
      nan_columns (take j axis) + nan_columns (axis ! j # drop (Suc j) axis)"
    unfolding nan_columns_def by (metis filter_append length_append)
  then show ?thesis using n by (simp add: nan_columns_def)
qed

lemma assign_nan_columns_none:
  "\<forall>v \<in> set axis. \<not> isnan (row0 v) \<Longrightarrow> assign_nan_columns axis rs = axis"
  by (induction axis) auto

lemma replace_nans_axis:
  "entries (optic_axis (replace_nans rand vol epoch)) =
     assign_nan_columns (entries (optic_axis vol))
       (map (\<lambda>k. F_normalize (rand k)) [0..<nan_columns (entries (optic_axis vol))])"
proof (cases "nan_columns (entries (optic_axis vol)) = 0")
  case True
  then have "\<forall>v \<in> set (entries (optic_axis vol)). \<not> isnan (row0 v)"
    by (simp add: nan_columns_def filter_empty_conv)
  then have "assign_nan_columns (entries (optic_axis vol)) [] = entries (optic_axis vol)"
    by (rule assign_nan_columns_none)
  then show ?thesis using True
    by (simp add: replace_nans_def Let_def nan_columns_def)
next
  case False
  then show ?thesis
    by (simp add: replace_nans_def Let_def nan_columns_def)
qed

lemma replace_nans_other_fields:
  "Delta_n (replace_nans rand vol epoch) = Delta_n vol
   \<and> requires_grad (optic_axis (replace_nans rand vol epoch)) = requires_grad (optic_axis vol)
   \<and> indices_active (replace_nans rand vol epoch) = indices_active vol
   \<and> active_idx2spatial_idx_tensor (replace_nans rand vol epoch) = active_idx2spatial_idx_tensor vol
   \<and> optic_axis_active (replace_nans rand vol epoch) = optic_axis_active vol
   \<and> optic_axis_planar (replace_nans rand vol epoch) = optic_axis_planar vol
   \<and> birefringence_active (replace_nans rand vol epoch) = birefringence_active vol"
  by (simp add: replace_nans_def Let_def)

lemma sqrt_quarter: "sqrt (1 / 4) = 1 / 2"
  by (rule real_sqrt_unique) (simp_all add: power2_eq_square)

lemma scenario_rand_norm: "normalize_eps \<le> sample_norm (scenario_rand k)"
  by (simp add: sample_norm_def scenario_rand_def normalize_eps_def power2_eq_square
      real_sqrt_divide sqrt_quarter)

text \<open>
  C5, as the code has it.  \<^verbatim>\<open>replace_nans\<close> takes a column of the full-grid optic axis
  for NaN when its component 0 is NaN.  Every such column is replaced by the next
  normalised random vector; when the drawn vector has a Euclidean norm of at least
  \<^verbatim>\<open>1e-12\<close>, the new column is finite and has norm 1.  Every other column is
  unchanged, whatever its components 1 and 2 hold, and so are the birefringence and the
  active tensors.  The function is total: nothing is raised.
\<close>

theorem replace_nans_recovers:
  assumes "\<forall>k < nan_columns (entries (optic_axis vol)). normalize_eps \<le> sample_norm (rand k)"
  shows "length (entries (optic_axis (replace_nans rand vol epoch))) = length (entries (optic_axis vol))
     \<and> (\<forall>j < length (entries (optic_axis vol)).
           if isnan (row0 (entries (optic_axis vol) ! j))
           then entries (optic_axis (replace_nans rand vol epoch)) ! j
                  = F_normalize (rand (nan_columns (take j (entries (optic_axis vol)))))
                \<and> finite3 (entries (optic_axis (replace_nans rand vol epoch)) ! j)
                \<and> norm3 (entries (optic_axis (replace_nans rand vol epoch)) ! j) = Fin 1
           else entries (optic_axis (replace_nans rand vol epoch)) ! j
                  = entries (optic_axis vol) ! j)
     \<and> Delta_n (replace_nans rand vol epoch) = Delta_n vol
     \<and> optic_axis_active (replace_nans rand vol epoch) = optic_axis_active vol
     \<and> optic_axis_planar (replace_nans rand vol epoch) = optic_axis_planar vol
     \<and> birefringence_active (replace_nans rand vol epoch) = birefringence_active vol"
proof -
  let ?axis = "entries (optic_axis vol)"
  let ?rs = "map (\<lambda>k. F_normalize (rand k)) [0..<nan_columns ?axis]"
  have len: "nan_columns ?axis \<le> length ?rs" by simp
  have "\<forall>j < length ?axis.
           if isnan (row0 (?axis ! j))
           then assign_nan_columns ?axis ?rs ! j = F_normalize (rand (nan_columns (take j ?axis)))
                \<and> finite3 (assign_nan_columns ?axis ?rs ! j)
                \<and> norm3 (assign_nan_columns ?axis ?rs ! j) = Fin 1
           else assign_nan_columns ?axis ?rs ! j = ?axis ! j"
  proof (intro allI impI)
    fix j assume j: "j < length ?axis"
    show "if isnan (row0 (?axis ! j))
           then assign_nan_columns ?axis ?rs ! j = F_normalize (rand (nan_columns (take j ?axis)))
                \<and> finite3 (assign_nan_columns ?axis ?rs ! j)
                \<and> norm3 (assign_nan_columns ?axis ?rs ! j) = Fin 1
           else assign_nan_columns ?axis ?rs ! j = ?axis ! j"
    proof (cases "isnan (row0 (?axis ! j))")
      case True
      have k: "nan_columns (take j ?axis) < nan_columns ?axis"
        using j True by (rule nan_columns_take)
      have "assign_nan_columns ?axis ?rs ! j = ?rs ! nan_columns (take j ?axis)"
        using assign_nan_columns_nth [OF len j] True by simp
      also have "\<dots> = F_normalize (rand (nan_columns (take j ?axis)))"
        using k by simp
      finally show ?thesis
        using True F_normalize_unit [of "rand (nan_columns (take j ?axis))"] assms k by simp
    next
      case False
      then show ?thesis using assign_nan_columns_nth [OF len j] by simp
    qed
  qed
  then show ?thesis
    unfolding replace_nans_axis
    using replace_nans_other_fields [of rand vol epoch]
    by (simp add: assign_nan_columns_length)
qed

theorem replace_nans_recovers_witness:
  "isnan (row0 (entries (optic_axis (nan_volume [(Fin 1, Fin 0, Fin 0), (NaN, NaN, NaN)])) ! 1))
   \<and> finite3 (entries (optic_axis
         (replace_nans scenario_rand (nan_volume [(Fin 1, Fin 0, Fin 0), (NaN, NaN, NaN)]) 0)) ! 1)
   \<and> norm3 (entries (optic_axis
         (replace_nans scenario_rand (nan_volume [(Fin 1, Fin 0, Fin 0), (NaN, NaN, NaN)]) 0)) ! 1) = Fin 1
   \<and> entries (optic_axis
         (replace_nans scenario_rand (nan_volume [(Fin 1, Fin 0, Fin 0), (NaN, NaN, NaN)]) 0)) ! 0
       = (Fin 1, Fin 0, Fin 0)"
proof -
  let ?vol = "nan_volume [(Fin 1, Fin 0, Fin 0), (NaN, NaN, NaN)]"
  let ?new = "entries (optic_axis (replace_nans scenario_rand ?vol 0))"
  have h: "\<forall>k < nan_columns (entries (optic_axis ?vol)). normalize_eps \<le> sample_norm (scenario_rand k)"
    using scenario_rand_norm by simp
  have ax: "entries (optic_axis ?vol) = [(Fin 1, Fin 0, Fin 0), (NaN, NaN, NaN)]"
    by (simp add: nan_volume_def Parameter_def)
  have j0: "0 < length (entries (optic_axis ?vol))" and j1: "1 < length (entries (optic_axis ?vol))"
    unfolding ax by simp_all
  have n0: "\<not> isnan (row0 (entries (optic_axis ?vol) ! 0))"
    and n1: "isnan (row0 (entries (optic_axis ?vol) ! 1))"
    unfolding ax by simp_all
  from replace_nans_recovers [OF h, of 0]
  have all: "\<forall>j < length (entries (optic_axis ?vol)).
           if isnan (row0 (entries (optic_axis ?vol) ! j))
           then ?new ! j = F_normalize (scenario_rand (nan_columns (take j (entries (optic_axis ?vol)))))
                \<and> finite3 (?new ! j) \<and> norm3 (?new ! j) = Fin 1
           else ?new ! j = entries (optic_axis ?vol) ! j"
    by blast
  from all j1 n1 have a: "finite3 (?new ! 1) \<and> norm3 (?new ! 1) = Fin 1"
    by (metis (no_types, lifting))
  from all j0 n0 have "?new ! 0 = entries (optic_axis ?vol) ! 0"
    by (metis (no_types, lifting))
  then have b: "?new ! 0 = (Fin 1, Fin 0, Fin 0)"
    unfolding ax by simp
  show ?thesis using n1 a b by blast
qed

text \<open>
  A column with a finite component 0, NaN in component 1 and an infinity in
  component 2 is not finite, and \<^verbatim>\<open>replace_nans\<close> leaves it as it is.
\<close>

theorem replace_nans_counterexample:
  "\<not> finite3 (entries (optic_axis (nan_volume [(Fin 1, NaN, PInf)])) ! 0)
   \<and> replace_nans scenario_rand (nan_volume [(Fin 1, NaN, PInf)]) 0 = nan_volume [(Fin 1, NaN, PInf)]
   \<and> \<not> finite3 (entries (optic_axis
           (replace_nans scenario_rand (nan_volume [(Fin 1, NaN, PInf)]) 0)) ! 0)"
  by (simp add: replace_nans_def Let_def nan_volume_def Parameter_def finite3_def)

section \<open>The optic axis on the unit sphere\<close>

lemma norm3_Fin: "norm3 (Fin a, Fin b, Fin c) = Fin (sqrt (a\<^sup>2 + b\<^sup>2 + c\<^sup>2))"
proof -
  have "0 \<le> a * a + b * b + c * c"
    by (intro add_nonneg_nonneg) simp_all
  then have "\<not> a * a + b * b + c * c < 0" by (simp only: not_less)
  then show ?thesis by (simp add: norm3_def power2_eq_square)
qed

lemma has_direction_Fin:
  assumes "has_direction v"
  obtains a b c where "v = (Fin a, Fin b, Fin c)" and "a \<noteq> 0 \<or> b \<noteq> 0 \<or> c \<noteq> 0"
  using assms by (rule has_direction.elims) auto

lemma normalize3_direction:
  assumes "a \<noteq> 0 \<or> b \<noteq> 0 \<or> c \<noteq> 0"
  shows "normalize3 (Fin a, Fin b, Fin c) =
          (Fin (a / sqrt (a\<^sup>2 + b\<^sup>2 + c\<^sup>2)), Fin (b / sqrt (a\<^sup>2 + b\<^sup>2 + c\<^sup>2)),
           Fin (c / sqrt (a\<^sup>2 + b\<^sup>2 + c\<^sup>2)))"
    and "norm3 (normalize3 (Fin a, Fin b, Fin c)) = Fin 1"
proof -
  have "0 < a\<^sup>2 + b\<^sup>2 + c\<^sup>2"
    using assms by (metis add_pos_nonneg add_nonneg_pos zero_le_power2 zero_less_power2 add_nonneg_nonneg)
  then have pos: "0 < sqrt (a\<^sup>2 + b\<^sup>2 + c\<^sup>2)" by simp
  then have ne: "sqrt (a\<^sup>2 + b\<^sup>2 + c\<^sup>2) \<noteq> 0" by simp
  have d: "has_direction (Fin a, Fin b, Fin c)" using assms by simp
  show n: "normalize3 (Fin a, Fin b, Fin c) =
          (Fin (a / sqrt (a\<^sup>2 + b\<^sup>2 + c\<^sup>2)), Fin (b / sqrt (a\<^sup>2 + b\<^sup>2 + c\<^sup>2)),
           Fin (c / sqrt (a\<^sup>2 + b\<^sup>2 + c\<^sup>2)))"
    unfolding normalize3_def if_P [OF d] prod.case norm3_Fin using ne by simp
  show "norm3 (normalize3 (Fin a, Fin b, Fin c)) = Fin 1"
    unfolding n using unit_after_division [OF pos] by (simp add: norm3_def)
qed

lemma normalize3_unit: "norm3 (normalize3 v) = Fin 1"
proof (cases "has_direction v")
  case True
  then obtain a b c where "v = (Fin a, Fin b, Fin c)" "a \<noteq> 0 \<or> b \<noteq> 0 \<or> c \<noteq> 0"
    by (rule has_direction_Fin)
  then show ?thesis using normalize3_direction(2) by simp
next
  case False
  then show ?thesis by (simp add: normalize3_def norm3_def)
qed

lemma unit_norm_of_one: "norm3 v = Fin 1 \<Longrightarrow> unit_norm v"
  by (simp add: unit_norm_def)

lemma axial_component_Fin:
  "p\<^sup>2 + q\<^sup>2 \<le> 1 \<Longrightarrow> axial_component (Fin p, Fin q) = Fin (sqrt (1 - (p\<^sup>2 + q\<^sup>2)))"
  by (simp add: axial_component_def fsub_def power2_eq_square)

lemma filled_stays:
  assumes "p\<^sup>2 + q\<^sup>2 \<le> 1"
  shows "normalize3 (axial_component (Fin p, Fin q), Fin p, Fin q)
           = (Fin (sqrt (1 - (p\<^sup>2 + q\<^sup>2))), Fin p, Fin q)"
proof -
  let ?r = "sqrt (1 - (p\<^sup>2 + q\<^sup>2))"
  have "?r\<^sup>2 = 1 - (p\<^sup>2 + q\<^sup>2)"
    using assms by simp
  then have one: "?r\<^sup>2 + p\<^sup>2 + q\<^sup>2 = 1" by simp
  have "?r \<noteq> 0 \<or> p \<noteq> 0 \<or> q \<noteq> 0"
  proof (rule ccontr)
    assume "\<not> (?r \<noteq> 0 \<or> p \<noteq> 0 \<or> q \<noteq> 0)"
    then have z: "?r = 0" "p = 0" "q = 0" by blast+
    have "sqrt (1 - ((0::real)\<^sup>2 + 0\<^sup>2)) = 1" by simp
    with z show False by (simp only:)
  qed
  from normalize3_direction(1) [OF this] show ?thesis
    unfolding axial_component_Fin [OF assms] one by simp
qed

lemma one_iteration_volume:
  assumes "one_iteration r groups e = Inr (r', groups')"
  shows "constrain_optic_axis (two_optic_axis_components r)
           (optimizer_step (two_optic_axis_components r) e (volume_pred r)) = Inr (volume_pred r')"
proof (cases "compute_loss (iteration_params r) (data_term_ext e) (reg_loss_ext e)")
  case (Inl err)
  then show ?thesis using assms by (simp add: one_iteration_def)
next
  case (Inr res)
  obtain l dt rt params1 where res: "res = ((l, dt, rt), params1)"
    by (cases res) auto
  show ?thesis
  proof (cases "constrain_optic_axis (two_optic_axis_components r)
                  (optimizer_step (two_optic_axis_components r) e (volume_pred r))")
    case (Inl err)
    then show ?thesis using assms Inr res by (simp add: one_iteration_def Let_def)
  next
    case vol: (Inr v)
    have "volume_pred r' = v"
      using assms Inr res vol
      by (cases "intensity_bool r") (auto simp: one_iteration_def Let_def store_results_def)
    then show ?thesis using vol by simp
  qed
qed

lemma constrain_three_components:
  assumes "constrain_optic_axis False vol = Inr vol'"
    and "indices_active vol \<noteq> None"
  shows "\<exists>t. optic_axis_active vol = Some t
           \<and> optic_axis_active vol' = Some (t\<lparr>entries := map normalize3 (entries t)\<rparr>)"
  using assms
  by (auto simp: constrain_optic_axis_def keep_optic_axis_on_sphere_def stay_on_sphere_def
      split: option.splits)

lemma constrain_two_components:
  assumes "constrain_optic_axis True vol = Inr vol'"
    and "indices_active vol \<noteq> None"
  shows "\<exists>t pl. optic_axis_active vol = Some t \<and> optic_axis_planar vol = Some pl
           \<and> length (entries t) = length (entries pl)
           \<and> optic_axis_active vol' =
               Some (t\<lparr>entries := map normalize3
                        (map (\<lambda>pq. (axial_component pq, fst pq, snd pq)) (entries pl))\<rparr>)"
proof -
  obtain vol1 where f: "fill_optaxis_component vol = Inr vol1"
    and k: "keep_optic_axis_on_sphere vol1 = Inr vol'"
    using assms(1) by (auto simp: constrain_optic_axis_def split: sum.splits)
  obtain t pl where t: "optic_axis_active vol = Some t" and pl: "optic_axis_planar vol = Some pl"
    using f by (auto simp: fill_optaxis_component_def split: option.splits)
  have len: "length (entries t) = length (entries pl)"
    and vol1: "vol1 = vol\<lparr>optic_axis_active :=
         Some (t\<lparr>entries := map (\<lambda>pq. (axial_component pq, fst pq, snd pq)) (entries pl)\<rparr>)\<rparr>"
    using f t pl
    by (auto simp: fill_optaxis_component_def fill_vector_based_on_nonaxial_def split: if_splits)
  have "optic_axis_active vol' =
          Some (t\<lparr>entries := map normalize3
                   (map (\<lambda>pq. (axial_component pq, fst pq, snd pq)) (entries pl))\<rparr>)"
    using k assms(2) unfolding vol1
    by (auto simp: keep_optic_axis_on_sphere_def stay_on_sphere_def)
  then show ?thesis using t pl len by blast
qed

lemma optimizer_step_three:
  "indices_active vol \<noteq> None \<Longrightarrow>
   indices_active (optimizer_step False e vol) = indices_active vol
   \<and> optic_axis_active (optimizer_step False e vol) =
       map_option (\<lambda>t. t\<lparr>entries := stepped_optic_axis e\<rparr>) (optic_axis_active vol)"
  by (auto simp: optimizer_step_def)

lemma optimizer_step_two:
  "indices_active vol \<noteq> None \<Longrightarrow>
   indices_active (optimizer_step True e vol) = indices_active vol
   \<and> optic_axis_active (optimizer_step True e vol) = optic_axis_active vol
   \<and> optic_axis_planar (optimizer_step True e vol) =
       map_option (\<lambda>t. t\<lparr>entries := stepped_planar e\<rparr>) (optic_axis_planar vol)"
  by (auto simp: optimizer_step_def)

lemma scenario_active_iteration:
  "\<not> isl (one_iteration scenario_active [1, 1] scenario_epoch)"
  by (simp add: one_iteration_def scenario_active_def scenario_reconstructor_def
      scenario_compute_loss scenario_epoch_def Let_def constrain_optic_axis_def
      keep_optic_axis_on_sphere_def optimizer_step_def scenario_volume_def Parameter_def)

lemma scenario_active_two_iteration:
  "\<not> isl (one_iteration scenario_active_two [1, 1] scenario_epoch)"
  by (simp add: one_iteration_def scenario_active_two_def scenario_reconstructor_def
      scenario_compute_loss scenario_epoch_def Let_def constrain_optic_axis_def
      keep_optic_axis_on_sphere_def optimizer_step_def scenario_volume_def Parameter_def
      scenario_two_component_def fill_optaxis_component_def fill_vector_based_on_nonaxial_def)





text \<open>
  C4.  At the end of \<^verbatim>\<open>one_iteration\<close> on a volume with an active set, every vector of
  the active optic axis has the Euclidean norm 1, exactly so in real arithmetic and
  hence within \<^verbatim>\<open>1e-5\<close>.  In three-component mode the active axis is what the optimizer
  step left, put on the sphere.  In two-component mode the axial component, row 0, is
  first reconstructed from the two planar components that the optimizer step left, and
  the normalisation is applied to the vector so filled; where the planar components
  \<open>p\<close>, \<open>q\<close> are finite with \<^verbatim>\<open>p^2 + q^2 <= 1\<close> the result is
  \<^verbatim>\<open>(sqrt(1 - p^2 - q^2), p, q)\<close>.
\<close>

theorem optic_axis_on_sphere:
  assumes "one_iteration r groups e = Inr (r', groups')"
    and "indices_active (volume_pred r) \<noteq> None"
  shows "\<exists>act. optic_axis_active (volume_pred r') = Some act \<and>
     (\<forall>j < length (entries act). norm3 (entries act ! j) = Fin 1 \<and> unit_norm (entries act ! j)) \<and>
     (if two_optic_axis_components r
      then length (entries act) = length (stepped_planar e) \<and>
           (\<forall>j < length (stepped_planar e).
               entries act ! j =
                 normalize3 (axial_component (stepped_planar e ! j),
                             fst (stepped_planar e ! j), snd (stepped_planar e ! j))) \<and>
           (\<forall>j < length (stepped_planar e). \<forall>p q.
               stepped_planar e ! j = (Fin p, Fin q) \<longrightarrow> p\<^sup>2 + q\<^sup>2 \<le> 1 \<longrightarrow>
               entries act ! j = (Fin (sqrt (1 - (p\<^sup>2 + q\<^sup>2))), Fin p, Fin q))
      else length (entries act) = length (stepped_optic_axis e) \<and>
           (\<forall>j < length (stepped_optic_axis e).
               entries act ! j = normalize3 (stepped_optic_axis e ! j)))"
proof (cases "two_optic_axis_components r")
  case True
  let ?st = "optimizer_step True e (volume_pred r)"
  have c: "constrain_optic_axis True ?st = Inr (volume_pred r')"
    using one_iteration_volume [OF assms(1)] True by simp
  have os: "indices_active ?st \<noteq> None"
    "optic_axis_planar ?st = map_option (\<lambda>t. t\<lparr>entries := stepped_planar e\<rparr>) (optic_axis_planar (volume_pred r))"
    using optimizer_step_two [OF assms(2), of e] assms(2) by simp_all
  from constrain_two_components [OF c os(1)] obtain t pl where
    pl: "optic_axis_planar ?st = Some pl"
    and act: "optic_axis_active (volume_pred r') =
               Some (t\<lparr>entries := map normalize3
                        (map (\<lambda>pq. (axial_component pq, fst pq, snd pq)) (entries pl))\<rparr>)"
    by blast
  have ent: "entries pl = stepped_planar e"
    using pl os(2) by (cases "optic_axis_planar (volume_pred r)") auto
  let ?act = "t\<lparr>entries := map normalize3
                 (map (\<lambda>pq. (axial_component pq, fst pq, snd pq)) (stepped_planar e))\<rparr>"
  have a: "optic_axis_active (volume_pred r') = Some ?act" using act ent by simp
  have u: "\<forall>j < length (entries ?act). norm3 (entries ?act ! j) = Fin 1 \<and> unit_norm (entries ?act ! j)"
    by (simp add: normalize3_unit unit_norm_of_one)
  have l: "length (entries ?act) = length (stepped_planar e)" by simp
  have f: "\<forall>j < length (stepped_planar e).
               entries ?act ! j =
                 normalize3 (axial_component (stepped_planar e ! j),
                             fst (stepped_planar e ! j), snd (stepped_planar e ! j))"
    by simp
  have g: "\<forall>j < length (stepped_planar e). \<forall>p q.
               stepped_planar e ! j = (Fin p, Fin q) \<longrightarrow> p\<^sup>2 + q\<^sup>2 \<le> 1 \<longrightarrow>
               entries ?act ! j = (Fin (sqrt (1 - (p\<^sup>2 + q\<^sup>2))), Fin p, Fin q)"
    by (simp add: filled_stays)
  show ?thesis
    unfolding if_P [OF True] using a u l f g by (intro exI [of _ ?act]) blast
next
  case False
  let ?st = "optimizer_step False e (volume_pred r)"
  have c: "constrain_optic_axis False ?st = Inr (volume_pred r')"
    using one_iteration_volume [OF assms(1)] False by simp
  have os: "indices_active ?st \<noteq> None"
    "optic_axis_active ?st = map_option (\<lambda>t. t\<lparr>entries := stepped_optic_axis e\<rparr>) (optic_axis_active (volume_pred r))"
    using optimizer_step_three [OF assms(2), of e] assms(2) by simp_all
  from constrain_three_components [OF c os(1)] obtain t where
    t: "optic_axis_active ?st = Some t"
    and act: "optic_axis_active (volume_pred r') = Some (t\<lparr>entries := map normalize3 (entries t)\<rparr>)"
    by blast
  have ent: "entries t = stepped_optic_axis e"
    using t os(2) by (cases "optic_axis_active (volume_pred r)") auto
  let ?act = "t\<lparr>entries := map normalize3 (stepped_optic_axis e)\<rparr>"
  have a: "optic_axis_active (volume_pred r') = Some ?act" using act ent by simp
  have u: "\<forall>j < length (entries ?act). norm3 (entries ?act ! j) = Fin 1 \<and> unit_norm (entries ?act ! j)"
    by (simp add: normalize3_unit unit_norm_of_one)
  have l: "length (entries ?act) = length (stepped_optic_axis e)" by simp
  have f: "\<forall>j < length (stepped_optic_axis e). entries ?act ! j = normalize3 (stepped_optic_axis e ! j)"
    by simp
  show ?thesis
    unfolding if_not_P [OF False] using a u l f by (intro exI [of _ ?act]) blast
qed

theorem optic_axis_on_sphere_witness:
  "\<not> isl (one_iteration scenario_active [1, 1] scenario_epoch)
   \<and> \<not> isl (one_iteration scenario_active_two [1, 1] scenario_epoch)
   \<and> indices_active (volume_pred scenario_active) \<noteq> None
   \<and> indices_active (volume_pred scenario_active_two) \<noteq> None
   \<and> stepped_optic_axis scenario_epoch ! 0 = (Fin 3, Fin 0, Fin 4)
   \<and> unit_norm (entries (the (optic_axis_active (volume_pred
         (fst (projr (one_iteration scenario_active [1, 1] scenario_epoch)))))) ! 0)
   \<and> stepped_planar scenario_epoch ! 1 = (Fin 1, Fin 0)
   \<and> entries (the (optic_axis_active (volume_pred
         (fst (projr (one_iteration scenario_active_two [1, 1] scenario_epoch)))))) ! 1
       = (Fin 0, Fin 1, Fin 0)
   \<and> unit_norm (entries (the (optic_axis_active (volume_pred
         (fst (projr (one_iteration scenario_active_two [1, 1] scenario_epoch)))))) ! 1)"
proof -
  let ?res3 = "projr (one_iteration scenario_active [1, 1] scenario_epoch)"
  let ?res2 = "projr (one_iteration scenario_active_two [1, 1] scenario_epoch)"
  have run3: "one_iteration scenario_active [1, 1] scenario_epoch = Inr (fst ?res3, snd ?res3)"
    using scenario_active_iteration
    by (cases "one_iteration scenario_active [1, 1] scenario_epoch") simp_all
  have run2: "one_iteration scenario_active_two [1, 1] scenario_epoch = Inr (fst ?res2, snd ?res2)"
    using scenario_active_two_iteration
    by (cases "one_iteration scenario_active_two [1, 1] scenario_epoch") simp_all
  have act3: "indices_active (volume_pred scenario_active) \<noteq> None"
    by (simp add: scenario_active_def)
  have act2: "indices_active (volume_pred scenario_active_two) \<noteq> None"
    by (simp add: scenario_active_two_def scenario_two_component_def)
  have mode3: "\<not> two_optic_axis_components scenario_active"
    by (simp add: scenario_active_def scenario_reconstructor_def)
  have mode2: "two_optic_axis_components scenario_active_two"
    by (simp add: scenario_active_two_def)
  have st: "stepped_optic_axis scenario_epoch ! 0 = (Fin 3, Fin 0, Fin 4)"
    "length (stepped_optic_axis scenario_epoch) = 3"
    "stepped_planar scenario_epoch ! 1 = (Fin 1, Fin 0)"
    "length (stepped_planar scenario_epoch) = 3"
    by (simp_all add: scenario_epoch_def)
  from optic_axis_on_sphere [OF run3 act3] mode3 obtain a3 where
    a3: "optic_axis_active (volume_pred (fst ?res3)) = Some a3"
    "length (entries a3) = length (stepped_optic_axis scenario_epoch)"
    "\<forall>j < length (entries a3). norm3 (entries a3 ! j) = Fin 1 \<and> unit_norm (entries a3 ! j)"
    by auto
  have u3: "unit_norm (entries a3 ! 0)" using a3(2,3) st(2) by simp
  from optic_axis_on_sphere [OF run2 act2] mode2 obtain a2 where
    a2: "optic_axis_active (volume_pred (fst ?res2)) = Some a2"
    "length (entries a2) = length (stepped_planar scenario_epoch)"
    "\<forall>j < length (entries a2). norm3 (entries a2 ! j) = Fin 1 \<and> unit_norm (entries a2 ! j)"
    "\<forall>j < length (stepped_planar scenario_epoch). \<forall>p q.
               stepped_planar scenario_epoch ! j = (Fin p, Fin q) \<longrightarrow> p\<^sup>2 + q\<^sup>2 \<le> 1 \<longrightarrow>
               entries a2 ! j = (Fin (sqrt (1 - (p\<^sup>2 + q\<^sup>2))), Fin p, Fin q)"
    by auto
  have u2: "unit_norm (entries a2 ! 1)" using a2(2,3) st(4) by simp
  have "(1::real)\<^sup>2 + 0\<^sup>2 \<le> 1" by simp
  with a2(4) st(3,4) have "entries a2 ! 1 = (Fin (sqrt (1 - ((1::real)\<^sup>2 + 0\<^sup>2))), Fin 1, Fin 0)"
    by (metis (no_types, lifting) one_less_numeral_iff semiring_norm(77))
  then have e2: "entries a2 ! 1 = (Fin 0, Fin 1, Fin 0)" by simp
  show ?thesis
    using scenario_active_iteration scenario_active_two_iteration act3 act2 st(1,3) a3(1) u3 a2(1) u2 e2
    by simp
qed



section \<open>The learning-rate warmup\<close>




lemma warmup_first_epoch:
  "lr_warmup False initial_lr_0 initial_lr_1 1 ([g0, g1], l0, l1)
     = Inr ([initial_lr_0 * (19 / 100), initial_lr_1 * (19 / 100)],
            initial_lr_0 * (19 / 100), initial_lr_1 * (19 / 100))"
  by (simp add: lr_warmup_def list_set_def warmup_epochs_def warmup_start_proportion_def Let_def)

lemma warmup_over:
  "warmup_epochs \<le> epoch \<Longrightarrow>
   lr_warmup False initial_lr_0 initial_lr_1 epoch ([g0, g1], l0, l1) = Inr ([g0, g1], g0, g1)"
  by (simp add: lr_warmup_def list_get_def)


end
